theory Spec2Isabelle
  imports Main "HOL-Library.AList"
begin

section \<open>Translation of the SQL and relational-algebra syntax trees (relalgFromAst.ts)\<close>

text \<open>
  A shallow embedding of \<^verbatim>\<open>src/db/translate/relalgFromAst.ts\<close>: the two translators
  \<^verbatim>\<open>relalgFromSQLAstRoot\<close> and \<^verbatim>\<open>relalgFromRelalgAstRoot\<close>, the shared expression
  translator \<^verbatim>\<open>recValueExpr\<close> and the join-condition normaliser \<^verbatim>\<open>parseJoinCondition\<close>.
  Every \<^verbatim>\<open>throw\<close> of the source is a value \<open>Inl e\<close> of the result type; mutation of a
  freshly built node (position, parentheses flag, warnings, metadata) is a function that
  returns the updated node.
\<close>

subsection \<open>Values, positions and errors\<close>

text \<open>JavaScript literals as they occur in the syntax trees. A number is an IEEE double;
  the numbers of the syntax trees are integer counts, so \<open>JNum\<close> carries an integer-valued
  finite double, and \<open>JInfinity\<close> and \<open>JNegInfinity\<close> are the two infinities an addition
  can overflow to.\<close>

datatype jsval = JNull | JBool bool | JNum int | JInfinity | JNegInfinity | JStr string

text \<open>The number of binary digits of a natural number.\<close>

fun bitLength :: "nat \<Rightarrow> nat" where
  "bitLength n = (if n = 0 then 0 else Suc (bitLength (n div 2)))"

declare bitLength.simps [simp del]

text \<open>Rounding of an integer to the nearest double (53 significant bits, ties to the even
  significand); every integer of magnitude up to \<open>2 ^ 53\<close> is a double.\<close>

definition roundToDouble :: "int \<Rightarrow> int" where
  "roundToDouble x =
     (if \<bar>x\<bar> \<le> 2 ^ 53 then x
      else (let a = \<bar>x\<bar>;
                q = 2 ^ (bitLength (nat a) - 53);
                m = a div q;
                r = a mod q;
                m' = (if 2 * r > q \<or> (2 * r = q \<and> odd m) then m + 1 else m)
            in sgn x * (m' * q)))"

text \<open>The operator \<^verbatim>\<open>+\<close> on two integer-valued doubles: the exact sum, rounded, and an
  infinity when the rounded sum leaves the finite range.\<close>

definition jsAdd :: "int \<Rightarrow> int \<Rightarrow> jsval" where
  "jsAdd a b =
     (let s = roundToDouble (a + b)
      in if s \<ge> 2 ^ 1024 then JInfinity
         else if s \<le> - (2 ^ 1024) then JNegInfinity
         else JNum s)"

text \<open>Modelled from the spec: the class \<^verbatim>\<open>CodeInfo\<close> (the source-position record) is
  imported from \<^verbatim>\<open>../exec/CodeInfo\<close>; the translator reads only its \<^verbatim>\<open>text\<close>.\<close>

record code_info =
  ci_offset :: nat
  ci_text :: string

text \<open>The two error kinds: the \<^verbatim>\<open>ExecutionError\<close> raised for an unknown relation
  (message key \<^verbatim>\<open>db.messages.translate.error-relation-not-found\<close>, parameter \<^verbatim>\<open>name\<close>,
  and the position handed to the constructor), an error raised by one of the external
  node operations, and the plain \<^verbatim>\<open>Error\<close> of the internal checks.\<close>

datatype error =
    RelationNotFound string "code_info option"
  | ExternalError string
  | InternalError string

definition bindE :: "error + 'a \<Rightarrow> ('a \<Rightarrow> error + 'b) \<Rightarrow> error + 'b" where
  "bindE m f = (case m of Inl e \<Rightarrow> Inl e | Inr x \<Rightarrow> f x)"

text \<open>The fields every node of either syntax tree carries: the position, the optional
  parentheses flag (tested with \<^verbatim>\<open>=== true\<close>) and the optional metadata object
  (\<open>None\<close> is \<^verbatim>\<open>undefined\<close>). An object has each key once.\<close>

record ast_hdr =
  codeInfo :: "code_info option"
  wrappedInParentheses :: bool
  metaData :: "(string \<times> jsval) list option"

subsection \<open>Value expressions\<close>

datatype vdatatype = DT_string | DT_number | DT_boolean | DT_date | DT_null | DT_other string

text \<open>An argument of an expression node is a literal or a nested expression node with
  \<^verbatim>\<open>datatype\<close>, \<^verbatim>\<open>func\<close>, \<^verbatim>\<open>args\<close>, \<^verbatim>\<open>codeInfo\<close> and \<^verbatim>\<open>wrappedInParentheses\<close>.\<close>

datatype ast_value =
    AV_lit jsval
  | AV_expr vdatatype string "ast_value list" "code_info option" bool

record vhdr =
  exprCodeInfo :: "code_info option"
  exprWrapped :: bool

datatype value_expr =
    ValueExprColumnValue vhdr "ast_value option" "ast_value option"
  | ValueExprGeneric vhdr vdatatype string "varg list"
and varg =
    ArgConst ast_value
  | ArgExpr value_expr

definition newExprHdr :: vhdr where
  "newExprHdr = \<lparr>exprCodeInfo = None, exprWrapped = False\<rparr>"

definition arg_at :: "'a list \<Rightarrow> nat \<Rightarrow> 'a option" where
  "arg_at xs i = (if i < length xs then Some (xs ! i) else None)"

definition finishExpr :: "code_info option \<Rightarrow> bool \<Rightarrow> vhdr" where
  "finishExpr ci w = \<lparr>exprCodeInfo = ci, exprWrapped = w\<rparr>"

text \<open>\<^verbatim>\<open>recValueExpr\<close>: a literal in the place of an expression node has no
  \<^verbatim>\<open>datatype\<close> and ends in the \<^verbatim>\<open>default\<close> branch of the switch; reading
  \<^verbatim>\<open>datatype\<close> of \<^verbatim>\<open>null\<close> is a \<^verbatim>\<open>TypeError\<close>.\<close>

fun recValueExpr :: "ast_value \<Rightarrow> error + value_expr"
  and recArgs :: "ast_value list \<Rightarrow> error + varg list" where
  "recValueExpr (AV_lit v) =
     Inl (InternalError (if v = JNull then ''TypeError'' else ''not implemented yet''))"
| "recValueExpr (AV_expr dt func args ci w) =
     (if dt = DT_null \<and> func = ''columnValue''
      then Inr (ValueExprColumnValue (finishExpr ci w) (arg_at args 0) (arg_at args 1))
      else (case dt of
          DT_other t \<Rightarrow> Inl (InternalError ''not implemented yet'')
        | _ \<Rightarrow>
          bindE (if func = ''constant'' then Inr (map ArgConst args) else recArgs args)
            (\<lambda>tmp. Inr (ValueExprGeneric (finishExpr ci w) dt func tmp))))"
| "recArgs [] = Inr []"
| "recArgs (a # as) =
     bindE (recValueExpr a) (\<lambda>v. bindE (recArgs as) (\<lambda>vs. Inr (ArgExpr v # vs)))"

subsection \<open>Join conditions\<close>

datatype join_cond_ast = JC_null | JC_columns "string list" | JC_expr ast_value

datatype join_condition = Natural "string list option" | Theta value_expr

definition parseJoinCondition :: "join_cond_ast \<Rightarrow> error + join_condition" where
  "parseJoinCondition condition =
     (case condition of
        JC_null \<Rightarrow> Inr (Natural None)
      | JC_columns cols \<Rightarrow> Inr (Natural (Some cols))
      | JC_expr e \<Rightarrow> bindE (recValueExpr e) (\<lambda>v. Inr (Theta v)))"

subsection \<open>The operator tree\<close>

text \<open>A column name is a string or a column index.\<close>

datatype colname = ColName string | ColIndex int

text \<open>The syntax trees' column reference \<^verbatim>\<open>{name, relAlias}\<close>, and the class
  \<^verbatim>\<open>Column\<close> built by \<^verbatim>\<open>new Column(name, relAlias)\<close>.\<close>

record columnName =
  name :: colname
  relAlias :: "string option"

datatype column = Column colname "string option"

text \<open>An aggregate-function entry (\<^verbatim>\<open>type: 'aggFunction'\<close>); the translator reads its
  output \<^verbatim>\<open>name\<close> and hands the entry itself to \<^verbatim>\<open>GroupBy\<close>.\<close>

record aggregateFunction =
  aggFunction :: string
  aggCol :: columnName
  aggName :: string

datatype projectionColumn =
    PC_column column
  | PC_expr colname "string option" value_expr

record renaming =
  newName :: string
  oldName :: colname
  oldRelAlias :: "string option"

record schema_column =
  sc_name :: colname
  sc_relAlias :: "string option"
  sc_type :: string

record relation_body =
  rel_name :: string
  rel_schema :: "schema_column list"
  rel_rows :: "jsval list list"

text \<open>Modelled from the spec: the base class \<^verbatim>\<open>RANode\<close> (\<^verbatim>\<open>../exec/RANode\<close>) is not
  part of the translated file. Its annotation fields are the position, the parentheses
  flag, the warnings list and the metadata object; a node that was just constructed has
  no position, no flag, no warning and no metadata.\<close>

record node_hdr =
  nodeCodeInfo :: "code_info option"
  nodeWrapped :: bool
  nodeWarnings :: "(string \<times> code_info option) list"
  nodeMetaData :: "(string \<times> jsval) list"

text \<open>One constructor of \<open>raop\<close> per operator class; the constructor arguments are those
  of the class's \<^verbatim>\<open>new\<close>. \<open>SemiJoin\<close> carries its left/right flag, \<open>RenameColumns\<close> the
  renamings registered by \<^verbatim>\<open>addRenaming\<close>.\<close>

datatype ranode = RANode node_hdr raop
and raop =
    Relation relation_body
  | Selection ranode value_expr
  | Projection ranode "projectionColumn list"
  | OrderBy ranode "column list" "bool list"
  | GroupBy ranode "columnName list" "aggregateFunction list"
  | RenameColumns ranode "renaming list"
  | RenameRelation ranode string
  | CrossJoin ranode ranode
  | InnerJoin ranode ranode join_condition
  | LeftOuterJoin ranode ranode join_condition
  | RightOuterJoin ranode ranode join_condition
  | FullOuterJoin ranode ranode join_condition
  | SemiJoin ranode ranode bool
  | AntiJoin ranode ranode
  | UnionOp ranode ranode
  | Intersect ranode ranode
  | Difference ranode ranode
  | Division ranode ranode

definition newHdr :: node_hdr where
  "newHdr = \<lparr>nodeCodeInfo = None, nodeWrapped = False, nodeWarnings = [], nodeMetaData = []\<rparr>"

definition new :: "raop \<Rightarrow> ranode" where
  "new op = RANode newHdr op"

fun hdr :: "ranode \<Rightarrow> node_hdr" where
  "hdr (RANode h op) = h"

fun operator :: "ranode \<Rightarrow> raop" where
  "operator (RANode h op) = op"

fun setCodeInfoObject :: "code_info option \<Rightarrow> ranode \<Rightarrow> ranode" where
  "setCodeInfoObject ci (RANode h op) = RANode (h\<lparr>nodeCodeInfo := ci\<rparr>) op"

fun setWrappedInParentheses :: "bool \<Rightarrow> ranode \<Rightarrow> ranode" where
  "setWrappedInParentheses b (RANode h op) = RANode (h\<lparr>nodeWrapped := b\<rparr>) op"

fun addWarning :: "string \<Rightarrow> code_info option \<Rightarrow> ranode \<Rightarrow> ranode" where
  "addWarning msg ci (RANode h op) = RANode (h\<lparr>nodeWarnings := nodeWarnings h @ [(msg, ci)]\<rparr>) op"

fun setMetaData :: "string \<Rightarrow> jsval \<Rightarrow> ranode \<Rightarrow> ranode" where
  "setMetaData k v (RANode h op) = RANode (h\<lparr>nodeMetaData := AList.update k v (nodeMetaData h)\<rparr>) op"

definition addRenaming :: "string \<Rightarrow> colname \<Rightarrow> string option \<Rightarrow> renaming list \<Rightarrow> renaming list" where
  "addRenaming a n r rs = rs @ [\<lparr>newName = a, oldName = n, oldRelAlias = r\<rparr>]"

subsection \<open>The relation catalog and the external node operations\<close>

text \<open>The catalog \<^verbatim>\<open>relations: { [key: string]: Relation }\<close> is a plain object: a key
  is absent, or bound to a value, which JavaScript allows to be \<^verbatim>\<open>undefined\<close>. The value
  of a property read is \<^verbatim>\<open>undefined\<close>, a relation, or a value that is neither (such as
  the functions every plain object inherits from \<^verbatim>\<open>Object.prototype\<close>).\<close>

datatype 'a js_slot = Undefined | Defined 'a | NotARelation

text \<open>The property names of \<^verbatim>\<open>Object.prototype\<close>.\<close>

definition objectPrototypeKeys :: "string list" where
  "objectPrototypeKeys =
     [''constructor'', ''__defineGetter__'', ''__defineSetter__'', ''hasOwnProperty'',
      ''__lookupGetter__'', ''__lookupSetter__'', ''isPrototypeOf'', ''propertyIsEnumerable'',
      ''toString'', ''valueOf'', ''__proto__'', ''toLocaleString'']"

type_synonym relation = "node_hdr \<times> relation_body"

type_synonym catalog = "string \<Rightarrow> relation js_slot option"

text \<open>\<open>lookup\<close> is the property read \<^verbatim>\<open>relations[n.name]\<close>: an own property wins, a
  name of \<^verbatim>\<open>Object.prototype\<close> is found along the prototype chain, any other name reads
  as \<^verbatim>\<open>undefined\<close>.\<close>

definition lookup :: "catalog \<Rightarrow> string \<Rightarrow> relation js_slot" where
  "lookup relations k =
     (case relations k of
        Some v \<Rightarrow> v
      | None \<Rightarrow> if k \<in> set objectPrototypeKeys then NotARelation else Undefined)"

text \<open>Modelled from the spec: \<^verbatim>\<open>Relation.copy()\<close> (class \<^verbatim>\<open>Relation\<close>, not part of the
  translated file) returns an independent duplicate of the catalog entry.\<close>

definition copy :: "relation \<Rightarrow> ranode" where
  "copy rel = RANode (fst rel) (Relation (snd rel))"

text \<open>The operations of the node classes that can raise and whose code is not part of
  the translated file are parameters of the translators: \<^verbatim>\<open>check()\<close>, the schema
  self-check of a node, and the construction of an inline relation from its declared
  columns and rows (\<^verbatim>\<open>new Schema\<close>, \<^verbatim>\<open>addColumn\<close>, \<^verbatim>\<open>new Relation\<close>, \<^verbatim>\<open>setSchema\<close>,
  \<^verbatim>\<open>addRows\<close>).\<close>

record externals =
  check :: "ranode \<Rightarrow> error option"
  inlineRelation :: "string \<Rightarrow> schema_column list \<Rightarrow> jsval list list \<Rightarrow> error + relation_body"

definition checked :: "externals \<Rightarrow> ranode \<Rightarrow> error + ranode" where
  "checked X root = (case check X root of Some e \<Rightarrow> Inl e | None \<Rightarrow> Inr root)"

subsection \<open>The SQL syntax tree\<close>

record order_arg =
  asc :: bool
  col :: columnName

text \<open>A \<^verbatim>\<open>where\<close> or \<^verbatim>\<open>having\<close> clause: its condition \<^verbatim>\<open>arg\<close> and its own position.\<close>

record condition_clause =
  clause_arg :: ast_value
  clause_codeInfo :: "code_info option"

text \<open>The entries of the SELECT list, by their \<^verbatim>\<open>type\<close> tag. A \<^verbatim>\<open>'column'\<close> entry has
  \<^verbatim>\<open>name\<close>, \<^verbatim>\<open>relAlias\<close> and, when it is a \<^verbatim>\<open>namedColumn\<close>, an \<^verbatim>\<open>alias\<close> (\<open>None\<close>
  stands for \<^verbatim>\<open>null\<close> and for a missing field). \<open>SA_other\<close> is any other tag.\<close>

datatype select_arg =
    SA_aggFunction aggregateFunction
  | SA_namedColumnExpr colname "string option" ast_value
  | SA_column colname "string option" "string option"
  | SA_other string

record select_clause =
  sel_distinct :: bool
  sel_arg :: "select_arg list"
  sel_codeInfo :: "code_info option"

text \<open>One constructor per \<^verbatim>\<open>type\<close> tag of \<^verbatim>\<open>sqlAst.astNode\<close>; \<open>S_other\<close> is a tag the
  switch of \<^verbatim>\<open>rec\<close> does not know. A statement has the fields \<^verbatim>\<open>from\<close>, \<^verbatim>\<open>where\<close>,
  \<^verbatim>\<open>groupBy\<close>, \<^verbatim>\<open>numAggregationColumns\<close>, \<^verbatim>\<open>having\<close> and \<^verbatim>\<open>select\<close>.\<close>

datatype sql_ast =
    S_relation ast_hdr string "string option"
  | S_statement ast_hdr statement
  | S_renameRelation ast_hdr sql_ast string
  | S_relationFromSubstatement ast_hdr sql_ast string
  | S_innerJoin ast_hdr sql_ast sql_ast join_cond_ast
  | S_leftOuterJoin ast_hdr sql_ast sql_ast join_cond_ast
  | S_rightOuterJoin ast_hdr sql_ast sql_ast join_cond_ast
  | S_fullOuterJoin ast_hdr sql_ast sql_ast join_cond_ast
  | S_crossJoin ast_hdr sql_ast sql_ast
  | S_naturalJoin ast_hdr sql_ast sql_ast
  | S_union ast_hdr sql_ast sql_ast bool
  | S_intersect ast_hdr sql_ast sql_ast bool
  | S_except ast_hdr sql_ast sql_ast bool
  | S_orderBy ast_hdr sql_ast "order_arg list"
  | S_limit ast_hdr sql_ast int int
  | S_other ast_hdr string
and statement =
    Stmt (stmt_from: sql_ast) (stmt_where: "condition_clause option")
      (stmt_groupBy: "columnName list option") (stmt_numAggregationColumns: int)
      (stmt_having: "condition_clause option") (stmt_select: select_clause)

fun astHdr :: "sql_ast \<Rightarrow> ast_hdr" where
  "astHdr (S_relation h n a) = h"
| "astHdr (S_statement h s) = h"
| "astHdr (S_renameRelation h c a) = h"
| "astHdr (S_relationFromSubstatement h c a) = h"
| "astHdr (S_innerJoin h c c2 cond) = h"
| "astHdr (S_leftOuterJoin h c c2 cond) = h"
| "astHdr (S_rightOuterJoin h c c2 cond) = h"
| "astHdr (S_fullOuterJoin h c c2 cond) = h"
| "astHdr (S_crossJoin h c c2) = h"
| "astHdr (S_naturalJoin h c c2) = h"
| "astHdr (S_union h c c2 al) = h"
| "astHdr (S_intersect h c c2 al) = h"
| "astHdr (S_except h c c2 al) = h"
| "astHdr (S_orderBy h c os) = h"
| "astHdr (S_limit h c l off) = h"
| "astHdr (S_other h t) = h"

subsection \<open>The SQL translator: helpers of \<^verbatim>\<open>relalgFromSQLAstRoot\<close>\<close>

text \<open>\<^verbatim>\<open>setCodeInfoFromNode(raNode, astNode)\<close>, given the \<^verbatim>\<open>codeInfo\<close> of \<^verbatim>\<open>astNode\<close>.\<close>

definition setCodeInfoFromNode :: "ranode \<Rightarrow> code_info option \<Rightarrow> error + ranode" where
  "setCodeInfoFromNode raNode ci =
     (case ci of
        None \<Rightarrow> Inl (InternalError ''should not happen'')
      | Some c \<Rightarrow> Inr (setCodeInfoObject (Some c) raNode))"

text \<open>The tail of \<^verbatim>\<open>rec\<close> after the switch (the parentheses flag, then the position).\<close>

definition finish :: "ast_hdr \<Rightarrow> ranode \<Rightarrow> error + ranode" where
  "finish h node =
     setCodeInfoFromNode
       (if wrappedInParentheses h then setWrappedInParentheses True node else node)
       (codeInfo h)"

definition getSelection :: "externals \<Rightarrow> ranode \<Rightarrow> ast_value \<Rightarrow> code_info option \<Rightarrow> error + ranode" where
  "getSelection X root condition ci =
     bindE (checked X root) (\<lambda>root.
     bindE (recValueExpr condition) (\<lambda>c.
     Inr (setCodeInfoObject ci (new (Selection root c)))))"

definition truthy :: "string option \<Rightarrow> bool" where
  "truthy a = (case a of None \<Rightarrow> False | Some s \<Rightarrow> s \<noteq> [])"

fun isNamedColumn :: "select_arg \<Rightarrow> bool" where
  "isNamedColumn (SA_column n r a) = truthy a"
| "isNamedColumn _ = False"

text \<open>The WHERE and the HAVING stage of \<^verbatim>\<open>parseStatement\<close> (the same code twice).\<close>

definition selectionStage :: "externals \<Rightarrow> condition_clause option \<Rightarrow> ranode \<Rightarrow> error + ranode" where
  "selectionStage X clause root =
     (case clause of
        None \<Rightarrow> Inr root
      | Some w \<Rightarrow>
          bindE (getSelection X root (clause_arg w) (clause_codeInfo w)) (\<lambda>root.
          setCodeInfoFromNode root (clause_codeInfo w)))"

text \<open>The stage ``group-by + aggregation''.\<close>

fun aggregateFunctionsOf :: "select_arg list \<Rightarrow> aggregateFunction list" where
  "aggregateFunctionsOf [] = []"
| "aggregateFunctionsOf (SA_aggFunction f # cols) = f # aggregateFunctionsOf cols"
| "aggregateFunctionsOf (_ # cols) = aggregateFunctionsOf cols"

definition groupByStage :: "columnName list option \<Rightarrow> int \<Rightarrow> select_arg list \<Rightarrow> ranode \<Rightarrow> ranode" where
  "groupByStage groupBy numAggregationColumns projectionArgs root =
     (if groupBy \<noteq> None \<or> numAggregationColumns > 0 then
        (let aggregateFunctions = aggregateFunctionsOf projectionArgs;
             groupByCols = (case groupBy of None \<Rightarrow> [] | Some cols \<Rightarrow> cols)
         in if length aggregateFunctions > 0
            then new (GroupBy root groupByCols aggregateFunctions)
            else new (Projection root
                   (map (\<lambda>c. PC_column (Column (name c) (relAlias c))) groupByCols)))
      else root)"

text \<open>The stage ``projection''.\<close>

fun isBareWildcard :: "select_arg list \<Rightarrow> bool" where
  "isBareWildcard [SA_column n r a] = (n = ColName ''*'' \<and> r = None)"
| "isBareWildcard _ = False"

fun projectionLoop ::
  "select_arg list \<Rightarrow> projectionColumn list \<Rightarrow> bool \<Rightarrow> error + (projectionColumn list \<times> bool)" where
  "projectionLoop [] projections colsRenamed = Inr (projections, colsRenamed)"
| "projectionLoop (SA_aggFunction f # cols) projections colsRenamed =
     projectionLoop cols (projections @ [PC_column (Column (ColName (aggName f)) None)]) colsRenamed"
| "projectionLoop (SA_namedColumnExpr n r child # cols) projections colsRenamed =
     bindE (recValueExpr child) (\<lambda>v.
     projectionLoop cols (projections @ [PC_expr n r v]) colsRenamed)"
| "projectionLoop (SA_column n r a # cols) projections colsRenamed =
     projectionLoop cols (projections @ [PC_column (Column n r)])
       (if isNamedColumn (SA_column n r a) then True else colsRenamed)"
| "projectionLoop (SA_other t # cols) projections colsRenamed =
     Inl (InternalError ''this should not happen'')"

definition projectionStage :: "select_clause \<Rightarrow> ranode \<Rightarrow> error + (ranode \<times> bool)" where
  "projectionStage sel root =
     (if isBareWildcard (sel_arg sel) then Inr (root, False)
      else
        bindE (projectionLoop (sel_arg sel) [] False) (\<lambda>(projections, colsRenamed).
        bindE (setCodeInfoFromNode (new (Projection root projections)) (sel_codeInfo sel)) (\<lambda>root.
        Inr (root, colsRenamed))))"

text \<open>The stage ``rename columns''.\<close>

fun registerRenaming :: "select_arg \<Rightarrow> renaming list \<Rightarrow> renaming list" where
  "registerRenaming (SA_column n r (Some a)) rs = addRenaming a n r rs"
| "registerRenaming _ rs = rs"

fun renameLoop :: "select_arg list \<Rightarrow> renaming list \<Rightarrow> renaming list" where
  "renameLoop [] rs = rs"
| "renameLoop (arg # args) rs =
     renameLoop args (if isNamedColumn arg then registerRenaming arg rs else rs)"

definition renameStage :: "bool \<Rightarrow> select_arg list \<Rightarrow> ranode \<Rightarrow> ranode" where
  "renameStage colsRenamed projectionArgs root =
     (if colsRenamed then new (RenameColumns root (renameLoop projectionArgs [])) else root)"

definition rownumGreater :: "int \<Rightarrow> value_expr" where
  "rownumGreater offset =
     ValueExprGeneric newExprHdr DT_boolean ''>''
       [ArgExpr (ValueExprGeneric newExprHdr DT_number ''rownum'' []),
        ArgExpr (ValueExprGeneric newExprHdr DT_number ''constant'' [ArgConst (AV_lit (JNum offset))])]"

definition rownumLessEq :: "jsval \<Rightarrow> value_expr" where
  "rownumLessEq bound =
     ValueExprGeneric newExprHdr DT_boolean ''<=''
       [ArgExpr (ValueExprGeneric newExprHdr DT_number ''rownum'' []),
        ArgExpr (ValueExprGeneric newExprHdr DT_number ''constant'' [ArgConst (AV_lit bound)])]"

definition limitCondition :: "int \<Rightarrow> int \<Rightarrow> value_expr" where
  "limitCondition limit offset =
     (let conditionOffset = rownumGreater offset
      in if limit = - 1 then conditionOffset
         else (let conditionLimit = rownumLessEq (jsAdd limit offset)
               in ValueExprGeneric newExprHdr DT_boolean ''and''
                    [ArgExpr conditionOffset, ArgExpr conditionLimit]))"

definition warnAll :: "bool \<Rightarrow> code_info option \<Rightarrow> ranode \<Rightarrow> ranode" where
  "warnAll al ci node =
     (if al then addWarning ''db.messages.translate.warning-ignored-all-on-set-operators'' ci node
      else node)"

definition orderCols :: "order_arg list \<Rightarrow> column list" where
  "orderCols es = map (\<lambda>e. Column (name (col e)) (relAlias (col e))) es"

definition orderAsc :: "order_arg list \<Rightarrow> bool list" where
  "orderAsc es = map asc es"

subsection \<open>The SQL translator: \<^verbatim>\<open>rec\<close> and \<^verbatim>\<open>parseStatement\<close>\<close>

text \<open>The arguments of a constructor call are evaluated from left to right, so the first
  failing sub-translation decides the error. \<^verbatim>\<open>parseStatement\<close> threads \<^verbatim>\<open>root\<close> through
  its stages: FROM (translated, positioned again from \<^verbatim>\<open>statement.from\<close>, checked), WHERE,
  group-by, HAVING, projection, rename.\<close>

fun rec :: "catalog \<Rightarrow> externals \<Rightarrow> sql_ast \<Rightarrow> error + ranode"
  and parseStatement :: "catalog \<Rightarrow> externals \<Rightarrow> statement \<Rightarrow> error + ranode" where
  "rec relations X (S_relation h n a) =
     (case lookup relations n of
        Undefined \<Rightarrow> Inl (RelationNotFound n (codeInfo h))
      | Defined r \<Rightarrow>
          (let rel = copy r
           in finish h (case a of None \<Rightarrow> rel | Some al \<Rightarrow> new (RenameRelation rel al)))
      | NotARelation \<Rightarrow> Inl (InternalError ''TypeError''))"
| "rec relations X (S_statement h s) =
     bindE (parseStatement relations X s) (\<lambda>node.
     finish h
       (if sel_distinct (stmt_select s) = False
        then addWarning ''db.messages.translate.warning-distinct-missing'' (codeInfo h) node
        else node))"
| "rec relations X (S_renameRelation h c newRelAlias) =
     bindE (rec relations X c) (\<lambda>a. finish h (new (RenameRelation a newRelAlias)))"
| "rec relations X (S_relationFromSubstatement h st al) =
     bindE (rec relations X st) (\<lambda>rel. finish h (new (RenameRelation rel al)))"
| "rec relations X (S_innerJoin h c c2 cond) =
     bindE (parseJoinCondition cond) (\<lambda>condition.
     bindE (rec relations X c) (\<lambda>a.
     bindE (rec relations X c2) (\<lambda>b. finish h (new (InnerJoin a b condition)))))"
| "rec relations X (S_leftOuterJoin h c c2 cond) =
     bindE (parseJoinCondition cond) (\<lambda>condition.
     bindE (rec relations X c) (\<lambda>a.
     bindE (rec relations X c2) (\<lambda>b. finish h (new (LeftOuterJoin a b condition)))))"
| "rec relations X (S_rightOuterJoin h c c2 cond) =
     bindE (parseJoinCondition cond) (\<lambda>condition.
     bindE (rec relations X c) (\<lambda>a.
     bindE (rec relations X c2) (\<lambda>b. finish h (new (RightOuterJoin a b condition)))))"
| "rec relations X (S_fullOuterJoin h c c2 cond) =
     bindE (parseJoinCondition cond) (\<lambda>condition.
     bindE (rec relations X c) (\<lambda>a.
     bindE (rec relations X c2) (\<lambda>b. finish h (new (FullOuterJoin a b condition)))))"
| "rec relations X (S_crossJoin h c c2) =
     bindE (rec relations X c) (\<lambda>a.
     bindE (rec relations X c2) (\<lambda>b. finish h (new (CrossJoin a b))))"
| "rec relations X (S_naturalJoin h c c2) =
     bindE (rec relations X c) (\<lambda>a.
     bindE (rec relations X c2) (\<lambda>b. finish h (new (InnerJoin a b (Natural None)))))"
| "rec relations X (S_union h c c2 al) =
     bindE (rec relations X c) (\<lambda>a.
     bindE (rec relations X c2) (\<lambda>b.
     finish h (warnAll al (codeInfo h) (new (UnionOp a b)))))"
| "rec relations X (S_intersect h c c2 al) =
     bindE (rec relations X c) (\<lambda>a.
     bindE (rec relations X c2) (\<lambda>b.
     finish h (warnAll al (codeInfo h) (new (Intersect a b)))))"
| "rec relations X (S_except h c c2 al) =
     bindE (rec relations X c) (\<lambda>a.
     bindE (rec relations X c2) (\<lambda>b.
     finish h (warnAll al (codeInfo h) (new (Difference a b)))))"
| "rec relations X (S_orderBy h c es) =
     bindE (rec relations X c) (\<lambda>a.
     finish h (new (OrderBy a (orderCols es) (orderAsc es))))"
| "rec relations X (S_limit h c limit offset) =
     bindE (rec relations X c) (\<lambda>a.
     finish h (new (Selection a (limitCondition limit offset))))"
| "rec relations X (S_other h t) = Inl (InternalError (''type '' @ t @ '' not implemented''))"
| "parseStatement relations X (Stmt frm wh groupBy numAggregationColumns having sel) =
     bindE (rec relations X frm) (\<lambda>root.
     bindE (setCodeInfoFromNode root (codeInfo (astHdr frm))) (\<lambda>root.
     bindE (checked X root) (\<lambda>root.
     bindE (selectionStage X wh root) (\<lambda>root.
     bindE (selectionStage X having (groupByStage groupBy numAggregationColumns (sel_arg sel) root))
       (\<lambda>root.
     bindE (projectionStage sel root) (\<lambda>(root, colsRenamed).
     Inr (renameStage colsRenamed (sel_arg sel) root)))))))"

definition relalgFromSQLAstRoot :: "sql_ast \<Rightarrow> catalog \<Rightarrow> externals \<Rightarrow> error + ranode" where
  "relalgFromSQLAstRoot astRootChild relations X = rec relations X astRootChild"

subsection \<open>The relational-algebra syntax tree and its translator\<close>

datatype ra_projection_arg =
    RP_columnName colname "string option"
  | RP_namedColumnExpr colname "string option" ast_value
  | RP_other string

record rename_arg =
  dst :: string
  src :: columnName

datatype ra_ast =
    R_relation ast_hdr string
  | R_table ast_hdr string "schema_column list" "jsval list list"
  | R_selection ast_hdr ra_ast ast_value
  | R_projection ast_hdr ra_ast "ra_projection_arg list"
  | R_orderBy ast_hdr ra_ast "order_arg list"
  | R_groupBy ast_hdr ra_ast "columnName list" "aggregateFunction list"
  | R_union ast_hdr ra_ast ra_ast
  | R_intersect ast_hdr ra_ast ra_ast
  | R_division ast_hdr ra_ast ra_ast
  | R_difference ast_hdr ra_ast ra_ast
  | R_renameColumns ast_hdr ra_ast "rename_arg list"
  | R_renameRelation ast_hdr ra_ast string
  | R_thetaJoin ast_hdr ra_ast ra_ast ast_value
  | R_crossJoin ast_hdr ra_ast ra_ast
  | R_naturalJoin ast_hdr ra_ast ra_ast
  | R_leftSemiJoin ast_hdr ra_ast ra_ast
  | R_rightSemiJoin ast_hdr ra_ast ra_ast
  | R_antiJoin ast_hdr ra_ast ra_ast
  | R_leftOuterJoin ast_hdr ra_ast ra_ast join_cond_ast
  | R_rightOuterJoin ast_hdr ra_ast ra_ast join_cond_ast
  | R_fullOuterJoin ast_hdr ra_ast ra_ast join_cond_ast

fun raHdr :: "ra_ast \<Rightarrow> ast_hdr" where
  "raHdr (R_relation h n) = h"
| "raHdr (R_table h n cs rows) = h"
| "raHdr (R_selection h c e) = h"
| "raHdr (R_projection h c ps) = h"
| "raHdr (R_orderBy h c es) = h"
| "raHdr (R_groupBy h c g a) = h"
| "raHdr (R_union h c c2) = h"
| "raHdr (R_intersect h c c2) = h"
| "raHdr (R_division h c c2) = h"
| "raHdr (R_difference h c c2) = h"
| "raHdr (R_renameColumns h c rs) = h"
| "raHdr (R_renameRelation h c a) = h"
| "raHdr (R_thetaJoin h c c2 e) = h"
| "raHdr (R_crossJoin h c c2) = h"
| "raHdr (R_naturalJoin h c c2) = h"
| "raHdr (R_leftSemiJoin h c c2) = h"
| "raHdr (R_rightSemiJoin h c c2) = h"
| "raHdr (R_antiJoin h c c2) = h"
| "raHdr (R_leftOuterJoin h c c2 cond) = h"
| "raHdr (R_rightOuterJoin h c c2 cond) = h"
| "raHdr (R_fullOuterJoin h c c2 cond) = h"

text \<open>The loop of \<^verbatim>\<open>setAdditionalData\<close> over the keys of the metadata object \<open>obj\<close>. Each
  round calls \<^verbatim>\<open>astNode.metaData.hasOwnProperty(key)\<close>: when the object has an own entry
  named \<^verbatim>\<open>hasOwnProperty\<close>, that entry (a literal, not a function) is what gets called,
  which is a \<^verbatim>\<open>TypeError\<close>; otherwise the inherited function answers whether \<open>key\<close> is
  an own key, and \<^verbatim>\<open>astNode.metaData[key]\<close> is set on the node.\<close>

fun copyMetaDataLoop ::
  "(string \<times> jsval) list \<Rightarrow> (string \<times> jsval) list \<Rightarrow> ranode \<Rightarrow> error + ranode" where
  "copyMetaDataLoop obj [] node = Inr node"
| "copyMetaDataLoop obj ((key, v) # rest) node =
     (if map_of obj ''hasOwnProperty'' \<noteq> None then Inl (InternalError ''TypeError'')
      else (case map_of obj key of
              None \<Rightarrow> copyMetaDataLoop obj rest node
            | Some w \<Rightarrow> copyMetaDataLoop obj rest (setMetaData key w node)))"

definition copyMetaData :: "(string \<times> jsval) list \<Rightarrow> ranode \<Rightarrow> error + ranode" where
  "copyMetaData md node = copyMetaDataLoop md md node"

text \<open>\<^verbatim>\<open>setAdditionalData\<close>: the position (unchecked), each own entry of the metadata
  object in turn, the parentheses flag.\<close>

definition setAdditionalData :: "ast_hdr \<Rightarrow> ranode \<Rightarrow> error + ranode" where
  "setAdditionalData h node =
     (let node1 = setCodeInfoObject (codeInfo h) node
      in bindE (case metaData h of None \<Rightarrow> Inr node1 | Some md \<Rightarrow> copyMetaData md node1)
           (\<lambda>node2.
              Inr (if wrappedInParentheses h then setWrappedInParentheses True node2 else node2)))"

fun raProjectionLoop :: "ra_projection_arg list \<Rightarrow> error + projectionColumn list" where
  "raProjectionLoop [] = Inr []"
| "raProjectionLoop (RP_columnName n r # els) =
     bindE (raProjectionLoop els) (\<lambda>ps. Inr (PC_column (Column n r) # ps))"
| "raProjectionLoop (RP_namedColumnExpr n r child # els) =
     bindE (recValueExpr child) (\<lambda>v.
     bindE (raProjectionLoop els) (\<lambda>ps. Inr (PC_expr n r v # ps)))"
| "raProjectionLoop (RP_other t # els) = Inl (InternalError ''should not happen'')"

definition raRenamings :: "rename_arg list \<Rightarrow> renaming list" where
  "raRenamings es = fold (\<lambda>e rs. addRenaming (dst e) (name (src e)) (relAlias (src e)) rs) es []"

text \<open>The \<^verbatim>\<open>table\<close> case reads \<^verbatim>\<open>n.codeInfo.text\<close>, which fails on a node without
  position.\<close>

definition inlineTable ::
  "externals \<Rightarrow> ast_hdr \<Rightarrow> string \<Rightarrow> schema_column list \<Rightarrow> jsval list list \<Rightarrow> error + ranode" where
  "inlineTable X h n columns rows =
     bindE (inlineRelation X n columns rows) (\<lambda>body.
     (let rel = setMetaData ''isInlineRelation'' (JBool True) (new (Relation body))
      in case codeInfo h of
           None \<Rightarrow> Inl (InternalError ''TypeError'')
         | Some ci \<Rightarrow> Inr (setMetaData ''inlineRelationDefinition'' (JStr (ci_text ci)) rel)))"

fun recRANode :: "catalog \<Rightarrow> externals \<Rightarrow> ra_ast \<Rightarrow> error + ranode" where
  "recRANode relations X (R_relation h n) =
     (case lookup relations n of
        Undefined \<Rightarrow> Inl (RelationNotFound n (codeInfo h))
      | Defined r \<Rightarrow> setAdditionalData h (copy r)
      | NotARelation \<Rightarrow> Inl (InternalError ''TypeError''))"
| "recRANode relations X (R_table h n columns rows) =
     bindE (inlineTable X h n columns rows) (\<lambda>rel. setAdditionalData h rel)"
| "recRANode relations X (R_selection h c e) =
     bindE (recRANode relations X c) (\<lambda>child.
     bindE (recValueExpr e) (\<lambda>condition.
     setAdditionalData h (new (Selection child condition))))"
| "recRANode relations X (R_projection h c els) =
     bindE (recRANode relations X c) (\<lambda>child.
     bindE (raProjectionLoop els) (\<lambda>projections.
     setAdditionalData h (new (Projection child projections))))"
| "recRANode relations X (R_orderBy h c es) =
     bindE (recRANode relations X c) (\<lambda>child.
     setAdditionalData h (new (OrderBy child (orderCols es) (orderAsc es))))"
| "recRANode relations X (R_groupBy h c grp aggregate) =
     bindE (recRANode relations X c) (\<lambda>child.
     setAdditionalData h (new (GroupBy child grp aggregate)))"
| "recRANode relations X (R_union h c c2) =
     bindE (recRANode relations X c) (\<lambda>child.
     bindE (recRANode relations X c2) (\<lambda>child2.
     setAdditionalData h (new (UnionOp child child2))))"
| "recRANode relations X (R_intersect h c c2) =
     bindE (recRANode relations X c) (\<lambda>child.
     bindE (recRANode relations X c2) (\<lambda>child2.
     setAdditionalData h (new (Intersect child child2))))"
| "recRANode relations X (R_division h c c2) =
     bindE (recRANode relations X c) (\<lambda>child.
     bindE (recRANode relations X c2) (\<lambda>child2.
     setAdditionalData h (new (Division child child2))))"
| "recRANode relations X (R_difference h c c2) =
     bindE (recRANode relations X c) (\<lambda>child.
     bindE (recRANode relations X c2) (\<lambda>child2.
     setAdditionalData h (new (Difference child child2))))"
| "recRANode relations X (R_renameColumns h c es) =
     bindE (recRANode relations X c) (\<lambda>child.
     setAdditionalData h (new (RenameColumns child (raRenamings es))))"
| "recRANode relations X (R_renameRelation h c newRelAlias) =
     bindE (recRANode relations X c) (\<lambda>child.
     setAdditionalData h (new (RenameRelation child newRelAlias)))"
| "recRANode relations X (R_thetaJoin h c c2 e) =
     bindE (recValueExpr e) (\<lambda>joinExpression.
     bindE (recRANode relations X c) (\<lambda>child.
     bindE (recRANode relations X c2) (\<lambda>child2.
     setAdditionalData h (new (InnerJoin child child2 (Theta joinExpression))))))"
| "recRANode relations X (R_crossJoin h c c2) =
     bindE (recRANode relations X c) (\<lambda>child.
     bindE (recRANode relations X c2) (\<lambda>child2.
     setAdditionalData h (new (CrossJoin child child2))))"
| "recRANode relations X (R_naturalJoin h c c2) =
     bindE (recRANode relations X c) (\<lambda>child.
     bindE (recRANode relations X c2) (\<lambda>child2.
     setAdditionalData h (new (InnerJoin child child2 (Natural None)))))"
| "recRANode relations X (R_leftSemiJoin h c c2) =
     bindE (recRANode relations X c) (\<lambda>child.
     bindE (recRANode relations X c2) (\<lambda>child2.
     setAdditionalData h (new (SemiJoin child child2 True))))"
| "recRANode relations X (R_rightSemiJoin h c c2) =
     bindE (recRANode relations X c) (\<lambda>child.
     bindE (recRANode relations X c2) (\<lambda>child2.
     setAdditionalData h (new (SemiJoin child child2 False))))"
| "recRANode relations X (R_antiJoin h c c2) =
     bindE (recRANode relations X c) (\<lambda>child.
     bindE (recRANode relations X c2) (\<lambda>child2.
     setAdditionalData h (new (AntiJoin child child2))))"
| "recRANode relations X (R_leftOuterJoin h c c2 cond) =
     bindE (recRANode relations X c) (\<lambda>child.
     bindE (recRANode relations X c2) (\<lambda>child2.
     bindE (parseJoinCondition cond) (\<lambda>condition.
     setAdditionalData h (new (LeftOuterJoin child child2 condition)))))"
| "recRANode relations X (R_rightOuterJoin h c c2 cond) =
     bindE (recRANode relations X c) (\<lambda>child.
     bindE (recRANode relations X c2) (\<lambda>child2.
     bindE (parseJoinCondition cond) (\<lambda>condition.
     setAdditionalData h (new (RightOuterJoin child child2 condition)))))"
| "recRANode relations X (R_fullOuterJoin h c c2 cond) =
     bindE (recRANode relations X c) (\<lambda>child.
     bindE (recRANode relations X c2) (\<lambda>child2.
     bindE (parseJoinCondition cond) (\<lambda>condition.
     setAdditionalData h (new (FullOuterJoin child child2 condition)))))"

definition relalgFromRelalgAstNode :: "ra_ast \<Rightarrow> catalog \<Rightarrow> externals \<Rightarrow> error + ranode" where
  "relalgFromRelalgAstNode astNode relations X = recRANode relations X astNode"

definition relalgFromRelalgAstRoot :: "ra_ast \<Rightarrow> catalog \<Rightarrow> externals \<Rightarrow> error + ranode" where
  "relalgFromRelalgAstRoot astRootChild relations X =
     relalgFromRelalgAstNode astRootChild relations X"

subsection \<open>The value of \<^verbatim>\<open>root\<close> between the stages of \<^verbatim>\<open>parseStatement\<close>\<close>

text \<open>\<open>rootAfterWhere\<close> is \<^verbatim>\<open>root\<close> when \<^verbatim>\<open>parseStatement\<close> reaches the group-by stage,
  \<open>rootAfterGroupBy\<close> when it reaches the HAVING stage, \<open>rootAfterHaving\<close> when it reaches
  the projection stage.\<close>

definition rootAfterWhere :: "catalog \<Rightarrow> externals \<Rightarrow> statement \<Rightarrow> error + ranode" where
  "rootAfterWhere relations X s =
     bindE (rec relations X (stmt_from s)) (\<lambda>root.
     bindE (setCodeInfoFromNode root (codeInfo (astHdr (stmt_from s)))) (\<lambda>root.
     bindE (checked X root) (\<lambda>root.
     selectionStage X (stmt_where s) root)))"

definition rootAfterGroupBy :: "catalog \<Rightarrow> externals \<Rightarrow> statement \<Rightarrow> error + ranode" where
  "rootAfterGroupBy relations X s =
     bindE (rootAfterWhere relations X s) (\<lambda>root.
     Inr (groupByStage (stmt_groupBy s) (stmt_numAggregationColumns s)
            (sel_arg (stmt_select s)) root))"

definition rootAfterHaving :: "catalog \<Rightarrow> externals \<Rightarrow> statement \<Rightarrow> error + ranode" where
  "rootAfterHaving relations X s =
     bindE (rootAfterGroupBy relations X s) (\<lambda>root.
     selectionStage X (stmt_having s) root)"

text \<open>Whether every node of a tree carries a position.\<close>

fun positioned :: "ranode \<Rightarrow> bool"
  and positionedOp :: "raop \<Rightarrow> bool" where
  "positioned (RANode h op) = (nodeCodeInfo h \<noteq> None \<and> positionedOp op)"
| "positionedOp (Relation b) = True"
| "positionedOp (Selection c e) = positioned c"
| "positionedOp (Projection c ps) = positioned c"
| "positionedOp (OrderBy c cols ascs) = positioned c"
| "positionedOp (GroupBy c cols aggs) = positioned c"
| "positionedOp (RenameColumns c rs) = positioned c"
| "positionedOp (RenameRelation c a) = positioned c"
| "positionedOp (CrossJoin c c2) = (positioned c \<and> positioned c2)"
| "positionedOp (InnerJoin c c2 j) = (positioned c \<and> positioned c2)"
| "positionedOp (LeftOuterJoin c c2 j) = (positioned c \<and> positioned c2)"
| "positionedOp (RightOuterJoin c c2 j) = (positioned c \<and> positioned c2)"
| "positionedOp (FullOuterJoin c c2 j) = (positioned c \<and> positioned c2)"
| "positionedOp (SemiJoin c c2 l) = (positioned c \<and> positioned c2)"
| "positionedOp (AntiJoin c c2) = (positioned c \<and> positioned c2)"
| "positionedOp (UnionOp c c2) = (positioned c \<and> positioned c2)"
| "positionedOp (Intersect c c2) = (positioned c \<and> positioned c2)"
| "positionedOp (Difference c c2) = (positioned c \<and> positioned c2)"
| "positionedOp (Division c c2) = (positioned c \<and> positioned c2)"

text \<open>The nodes of a tree, the root first.\<close>

fun nodes :: "ranode \<Rightarrow> ranode list"
  and nodesOp :: "raop \<Rightarrow> ranode list" where
  "nodes (RANode h op) = RANode h op # nodesOp op"
| "nodesOp (Relation b) = []"
| "nodesOp (Selection c e) = nodes c"
| "nodesOp (Projection c ps) = nodes c"
| "nodesOp (OrderBy c cols ascs) = nodes c"
| "nodesOp (GroupBy c cols aggs) = nodes c"
| "nodesOp (RenameColumns c rs) = nodes c"
| "nodesOp (RenameRelation c a) = nodes c"
| "nodesOp (CrossJoin c c2) = nodes c @ nodes c2"
| "nodesOp (InnerJoin c c2 j) = nodes c @ nodes c2"
| "nodesOp (LeftOuterJoin c c2 j) = nodes c @ nodes c2"
| "nodesOp (RightOuterJoin c c2 j) = nodes c @ nodes c2"
| "nodesOp (FullOuterJoin c c2 j) = nodes c @ nodes c2"
| "nodesOp (SemiJoin c c2 l) = nodes c @ nodes c2"
| "nodesOp (AntiJoin c c2) = nodes c @ nodes c2"
| "nodesOp (UnionOp c c2) = nodes c @ nodes c2"
| "nodesOp (Intersect c c2) = nodes c @ nodes c2"
| "nodesOp (Difference c c2) = nodes c @ nodes c2"
| "nodesOp (Division c c2) = nodes c @ nodes c2"

subsection \<open>Example inputs\<close>

text \<open>A catalog with the one relation \<open>R\<close>, a catalog whose key \<open>R\<close> is bound to
  \<^verbatim>\<open>undefined\<close>, external operations that never fail, and a few syntax trees.\<close>

definition exPos :: "string \<Rightarrow> code_info" where
  "exPos t = \<lparr>ci_offset = 0, ci_text = t\<rparr>"

definition exHdr :: "string \<Rightarrow> ast_hdr" where
  "exHdr t = \<lparr>codeInfo = Some (exPos t), wrappedInParentheses = False, metaData = None\<rparr>"

definition exBody :: relation_body where
  "exBody = \<lparr>rel_name = ''R'', rel_schema = [], rel_rows = []\<rparr>"

definition exCatalog :: catalog where
  "exCatalog = [''R'' \<mapsto> Defined (newHdr, exBody)]"

definition exCatalogUndefined :: catalog where
  "exCatalogUndefined = [''R'' \<mapsto> Undefined]"

definition exCatalogToString :: catalog where
  "exCatalogToString = [''toString'' \<mapsto> Undefined]"

definition exExternals :: externals where
  "exExternals =
     \<lparr>check = (\<lambda>node. None),
      inlineRelation = (\<lambda>n cs rows. Inr \<lparr>rel_name = n, rel_schema = cs, rel_rows = rows\<rparr>)\<rparr>"

definition exSelect :: "bool \<Rightarrow> select_arg list \<Rightarrow> select_clause" where
  "exSelect d args = \<lparr>sel_distinct = d, sel_arg = args, sel_codeInfo = Some (exPos ''select'')\<rparr>"

text \<open>\<^verbatim>\<open>SELECT ... FROM R\<close> with the given SELECT list and GROUP BY columns.\<close>

definition exStatement :: "bool \<Rightarrow> select_arg list \<Rightarrow> columnName list option \<Rightarrow> int \<Rightarrow> statement" where
  "exStatement d args groupBy numAgg =
     Stmt (S_relation (exHdr ''R'') ''R'' None) None groupBy numAgg None (exSelect d args)"

definition exCountFunction :: aggregateFunction where
  "exCountFunction =
     \<lparr>aggFunction = ''COUNT_ALL'', aggCol = \<lparr>name = ColName ''*'', relAlias = None\<rparr>,
      aggName = ''n''\<rparr>"

definition exCount :: select_arg where
  "exCount = SA_aggFunction exCountFunction"

text \<open>The node that \<^verbatim>\<open>rec\<close> returns for the reference to \<open>R\<close>.\<close>

definition exRoot :: ranode where
  "exRoot = RANode (newHdr\<lparr>nodeCodeInfo := Some (exPos ''R'')\<rparr>) (Relation exBody)"

definition exColumnC :: columnName where
  "exColumnC = \<lparr>name = ColName ''c'', relAlias = None\<rparr>"

section \<open>Properties\<close>

subsection \<open>Error propagation\<close>

lemma bindE_Inl [simp]: "bindE (Inl e) f = Inl e"
  by (simp add: bindE_def)

lemma bindE_Inr [simp]: "bindE (Inr x) f = f x"
  by (simp add: bindE_def)

lemma bindE_eq_Inr: "bindE m f = Inr y \<longleftrightarrow> (\<exists>x. m = Inr x \<and> f x = Inr y)"
  by (cases m) simp_all

lemma bindE_assoc: "bindE (bindE m f) g = bindE m (\<lambda>x. bindE (f x) g)"
  by (cases m) simp_all

subsection \<open>Node annotations\<close>

lemma hdr_setCodeInfoObject [simp]:
  "hdr (setCodeInfoObject ci node) = (hdr node)\<lparr>nodeCodeInfo := ci\<rparr>"
  by (cases node) simp

lemma hdr_setWrappedInParentheses [simp]:
  "hdr (setWrappedInParentheses b node) = (hdr node)\<lparr>nodeWrapped := b\<rparr>"
  by (cases node) simp

lemma hdr_addWarning [simp]:
  "hdr (addWarning msg ci node) = (hdr node)\<lparr>nodeWarnings := nodeWarnings (hdr node) @ [(msg, ci)]\<rparr>"
  by (cases node) simp

lemma operator_setCodeInfoObject [simp]: "operator (setCodeInfoObject ci node) = operator node"
  by (cases node) simp

lemma operator_setWrappedInParentheses [simp]:
  "operator (setWrappedInParentheses b node) = operator node"
  by (cases node) simp

lemma operator_addWarning [simp]: "operator (addWarning msg ci node) = operator node"
  by (cases node) simp

lemma operator_new [simp]: "operator (new op) = op"
  by (simp add: new_def)

lemma hdr_new [simp]: "hdr (new op) = newHdr"
  by (simp add: new_def)

lemma finish_Inr:
  assumes "finish h node = Inr t"
  shows "operator t = operator node"
    and "nodeWarnings (hdr t) = nodeWarnings (hdr node)"
    and "nodeMetaData (hdr t) = nodeMetaData (hdr node)"
    and "nodeCodeInfo (hdr t) = codeInfo h"
    and "codeInfo h \<noteq> None"
  using assms
  by (auto simp: finish_def setCodeInfoFromNode_def split: option.splits if_splits)

lemma hdr_setMetaData [simp]:
  "hdr (setMetaData k v node) = (hdr node)\<lparr>nodeMetaData := AList.update k v (nodeMetaData (hdr node))\<rparr>"
  by (cases node) simp

lemma finish_positioned: "finish h node = Inr t \<Longrightarrow> nodeCodeInfo (hdr t) \<noteq> None"
  using finish_Inr(4,5) [of h node t] by simp

lemmas example_defs =
  exPos_def exHdr_def exBody_def exCatalog_def exCatalogUndefined_def exCatalogToString_def
  exExternals_def exSelect_def exStatement_def exCount_def exCountFunction_def exColumnC_def
  exRoot_def

lemmas translator_defs =
  lookup_def objectPrototypeKeys_def copy_def finish_def setCodeInfoFromNode_def checked_def
  getSelection_def selectionStage_def groupByStage_def projectionStage_def renameStage_def
  new_def newHdr_def truthy_def addRenaming_def setAdditionalData_def copyMetaData_def

subsection \<open>LIMIT and OFFSET\<close>

lemma roundToDouble_exact: "\<bar>x\<bar> \<le> 2 ^ 53 \<Longrightarrow> roundToDouble x = x"
  by (simp add: roundToDouble_def)

lemma jsAdd_exact:
  assumes "\<bar>a + b\<bar> \<le> 2 ^ 53"
  shows "jsAdd a b = JNum (a + b)"
proof -
  have "(2::int) ^ 53 < 2 ^ 1024"
    by (rule power_strict_increasing) simp_all
  with assms have "a + b < 2 ^ 1024" and "- (2 ^ 1024) < a + b"
    by linarith+
  with assms show ?thesis
    by (simp add: jsAdd_def roundToDouble_exact)
qed

lemma limit_child_failure:
  "rec relations X c = Inl e \<Longrightarrow> rec relations X (S_limit h c limit offset) = Inl e"
  by simp

text \<open>C1. When the child of a \<^verbatim>\<open>limit\<close> node translates to a tree and the node has a
  position, the node translates to a Selection over that tree. For \<^verbatim>\<open>limit === -1\<close>
  (LIMIT ALL) the condition is the single predicate \<open>rownum > offset\<close>; otherwise it is the
  conjunction of \<open>rownum > offset\<close> and \<open>rownum <= limit + offset\<close>, where the sum is the
  JavaScript sum of the two numbers, which is the exact sum up to \<open>2 ^ 53\<close>.\<close>

theorem limit_lowering:
  assumes "rec relations X c = Inr child" and "codeInfo h = Some ci"
  shows "rec relations X (S_limit h c limit offset) =
           Inr (RANode
             \<lparr>nodeCodeInfo = Some ci, nodeWrapped = wrappedInParentheses h,
              nodeWarnings = [], nodeMetaData = []\<rparr>
             (Selection child
               (if limit = - 1
                then ValueExprGeneric newExprHdr DT_boolean ''>''
                      [ArgExpr (ValueExprGeneric newExprHdr DT_number ''rownum'' []),
                       ArgExpr (ValueExprGeneric newExprHdr DT_number ''constant''
                         [ArgConst (AV_lit (JNum offset))])]
                else ValueExprGeneric newExprHdr DT_boolean ''and''
                      [ArgExpr (ValueExprGeneric newExprHdr DT_boolean ''>''
                                  [ArgExpr (ValueExprGeneric newExprHdr DT_number ''rownum'' []),
                                   ArgExpr (ValueExprGeneric newExprHdr DT_number ''constant''
                                     [ArgConst (AV_lit (JNum offset))])]),
                       ArgExpr (ValueExprGeneric newExprHdr DT_boolean ''<=''
                                  [ArgExpr (ValueExprGeneric newExprHdr DT_number ''rownum'' []),
                                   ArgExpr (ValueExprGeneric newExprHdr DT_number ''constant''
                                     [ArgConst (AV_lit (jsAdd limit offset))])])]))) \<and>
         (\<bar>limit + offset\<bar> \<le> 2 ^ 53 \<longrightarrow> jsAdd limit offset = JNum (limit + offset))"
  using assms
  by (simp add: finish_def setCodeInfoFromNode_def new_def newHdr_def limitCondition_def
      rownumGreater_def rownumLessEq_def jsAdd_exact)

theorem limit_lowering_witness:
  "rec exCatalog exExternals (S_relation (exHdr ''R'') ''R'' None) = Inr exRoot \<and>
   rec exCatalog exExternals (S_limit (exHdr ''limit'') (S_relation (exHdr ''R'') ''R'' None) 10 5) =
     Inr (RANode
       \<lparr>nodeCodeInfo = Some (exPos ''limit''), nodeWrapped = False,
        nodeWarnings = [], nodeMetaData = []\<rparr>
       (Selection exRoot
         (ValueExprGeneric newExprHdr DT_boolean ''and''
            [ArgExpr (ValueExprGeneric newExprHdr DT_boolean ''>''
                        [ArgExpr (ValueExprGeneric newExprHdr DT_number ''rownum'' []),
                         ArgExpr (ValueExprGeneric newExprHdr DT_number ''constant''
                           [ArgConst (AV_lit (JNum 5))])]),
             ArgExpr (ValueExprGeneric newExprHdr DT_boolean ''<=''
                        [ArgExpr (ValueExprGeneric newExprHdr DT_number ''rownum'' []),
                         ArgExpr (ValueExprGeneric newExprHdr DT_number ''constant''
                           [ArgConst (AV_lit (JNum 15))])])]))) \<and>
   rec exCatalog exExternals (S_limit (exHdr ''limit'') (S_relation (exHdr ''R'') ''R'' None) (- 1) 5) =
     Inr (RANode
       \<lparr>nodeCodeInfo = Some (exPos ''limit''), nodeWrapped = False,
        nodeWarnings = [], nodeMetaData = []\<rparr>
       (Selection exRoot
         (ValueExprGeneric newExprHdr DT_boolean ''>''
            [ArgExpr (ValueExprGeneric newExprHdr DT_number ''rownum'' []),
             ArgExpr (ValueExprGeneric newExprHdr DT_number ''constant''
               [ArgConst (AV_lit (JNum 5))])])))"
proof -
  have c: "rec exCatalog exExternals (S_relation (exHdr ''R'') ''R'' None) = Inr exRoot"
    by (simp add: example_defs translator_defs)
  have p: "codeInfo (exHdr ''limit'') = Some (exPos ''limit'')"
    and w: "wrappedInParentheses (exHdr ''limit'') = False"
    by (simp_all add: exHdr_def)
  from limit_lowering [OF c p, of 10 5] limit_lowering [OF c p, of "- 1" 5] c
  show ?thesis
    unfolding w by (simp del: rec.simps)
qed

text \<open>Beyond \<open>2 ^ 53\<close> the sum is rounded: \<open>2 ^ 53 + 1\<close> is \<open>2 ^ 53\<close>.\<close>

lemma jsAdd_rounds: "jsAdd 9007199254740992 1 = JNum 9007199254740992"
proof -
  have b: "bitLength 9007199254740993 = 54"
    by (simp add: bitLength.simps)
  have r: "roundToDouble 9007199254740993 = 9007199254740992"
    by (simp add: roundToDouble_def Let_def b)
  have s: "(9007199254740992::int) + 1 = 9007199254740993"
    by simp
  have p: "(2::int) ^ 53 = 9007199254740992"
    by simp
  have "(2::int) ^ 53 < 2 ^ 1024"
    by (rule power_strict_increasing) simp_all
  then have big: "\<not> (9007199254740992::int) \<ge> 2 ^ 1024"
    and small: "\<not> (9007199254740992::int) \<le> - (2 ^ 1024)"
    unfolding p by linarith+
  show ?thesis
    unfolding jsAdd_def Let_def s r by (simp only: big small if_False)
qed

subsection \<open>Relation lookup\<close>




text \<open>A name that the catalog object inherits from \<^verbatim>\<open>Object.prototype\<close> and that is not a
  key of the catalog passes the \<^verbatim>\<open>typeof\<close> test, and \<^verbatim>\<open>copy()\<close> fails on it.\<close>

lemma inherited_name_type_error:
  assumes "relations n = None" and "n \<in> set objectPrototypeKeys"
  shows "rec relations X (S_relation h n a) = Inl (InternalError ''TypeError'')"
    and "recRANode relations X (R_relation h n) = Inl (InternalError ''TypeError'')"
  using assms by (simp_all add: lookup_def)

text \<open>A key bound to \<^verbatim>\<open>undefined\<close> fails the \<^verbatim>\<open>typeof\<close> test in both translators.\<close>

lemma undefined_entry_not_found:
  assumes "relations n = Some Undefined"
  shows "rec relations X (S_relation h n a) = Inl (RelationNotFound n (codeInfo h))"
    and "recRANode relations X (R_relation h n) = Inl (RelationNotFound n (codeInfo h))"
  using assms by (simp_all add: lookup_def)




text \<open>C10. A catalog key bound to \<^verbatim>\<open>undefined\<close> raises the relation-not-found error in both
  translators, but that is not what every absent key does: with the key \<open>toString\<close> bound
  to \<^verbatim>\<open>undefined\<close> the reference fails with relation-not-found, and with the key removed
  it fails with a \<^verbatim>\<open>TypeError\<close>, because the inherited \<^verbatim>\<open>toString\<close> passes the
  \<^verbatim>\<open>typeof\<close> test.\<close>

theorem undefined_entry_unlike_absent_inherited_name:
  "rec exCatalogToString exExternals (S_relation (exHdr ''toString'') ''toString'' None)
     = Inl (RelationNotFound ''toString'' (Some (exPos ''toString''))) \<and>
   rec (exCatalogToString(''toString'' := None)) exExternals
       (S_relation (exHdr ''toString'') ''toString'' None)
     = Inl (InternalError ''TypeError'') \<and>
   recRANode exCatalogToString exExternals (R_relation (exHdr ''toString'') ''toString'')
     = Inl (RelationNotFound ''toString'' (Some (exPos ''toString''))) \<and>
   recRANode (exCatalogToString(''toString'' := None)) exExternals
       (R_relation (exHdr ''toString'') ''toString'')
     = Inl (InternalError ''TypeError'')"
  by (simp add: exCatalogToString_def lookup_def objectPrototypeKeys_def exHdr_def)

subsection \<open>The missing-DISTINCT warning\<close>

text \<open>C9. Translating a statement node appends the missing-DISTINCT warning, with the
  statement's position, to the node \<^verbatim>\<open>parseStatement\<close> returned exactly when
  \<^verbatim>\<open>select.distinct\<close> is false, and appends nothing when it is true. A statement below a
  \<^verbatim>\<open>relationFromSubstatement\<close> wrapper is translated by the same case of \<^verbatim>\<open>rec\<close>, and
  its node becomes the child of the wrapper's \<open>RenameRelation\<close>.\<close>

theorem distinct_warning:
  "(rec relations X (S_statement h s) = Inr t \<longrightarrow>
      (\<exists>t0. parseStatement relations X s = Inr t0 \<and>
            operator t = operator t0 \<and>
            nodeWarnings (hdr t) =
              nodeWarnings (hdr t0) @
              (if sel_distinct (stmt_select s) then []
               else [(''db.messages.translate.warning-distinct-missing'', codeInfo h)]))) \<and>
   (rec relations X (S_relationFromSubstatement h' (S_statement h s) al) = Inr w \<longrightarrow>
      (\<exists>t1. rec relations X (S_statement h s) = Inr t1 \<and>
            operator w = RenameRelation t1 al))"
proof (intro conjI impI)
  assume "rec relations X (S_statement h s) = Inr t"
  then obtain t0 where p: "parseStatement relations X s = Inr t0"
    and f: "finish h
       (if sel_distinct (stmt_select s) = False
        then addWarning ''db.messages.translate.warning-distinct-missing'' (codeInfo h) t0
        else t0) = Inr t"
    by (auto simp: bindE_eq_Inr)
  from finish_Inr(1,2) [OF f] p
  show "\<exists>t0. parseStatement relations X s = Inr t0 \<and>
            operator t = operator t0 \<and>
            nodeWarnings (hdr t) =
              nodeWarnings (hdr t0) @
              (if sel_distinct (stmt_select s) then []
               else [(''db.messages.translate.warning-distinct-missing'', codeInfo h)])"
    by (cases "sel_distinct (stmt_select s)") simp_all
next
  assume "rec relations X (S_relationFromSubstatement h' (S_statement h s) al) = Inr w"
  then obtain t1 where r: "rec relations X (S_statement h s) = Inr t1"
    and f: "finish h' (new (RenameRelation t1 al)) = Inr w"
    by (auto simp: bindE_eq_Inr simp del: rec.simps(2))
  from finish_Inr(1) [OF f] r
  show "\<exists>t1. rec relations X (S_statement h s) = Inr t1 \<and> operator w = RenameRelation t1 al"
    by simp
qed

theorem distinct_warning_witness:
  "(\<exists>t. rec exCatalog exExternals
          (S_statement (exHdr ''q'') (exStatement False [SA_column (ColName ''a'') None None] None 0))
        = Inr t \<and>
        nodeWarnings (hdr t) =
          [] @ [(''db.messages.translate.warning-distinct-missing'', Some (exPos ''q''))]) \<and>
   (\<exists>w t1. rec exCatalog exExternals
          (S_relationFromSubstatement (exHdr ''sub'')
            (S_statement (exHdr ''q'') (exStatement False [SA_column (ColName ''a'') None None] None 0))
            ''T'')
        = Inr w \<and>
        rec exCatalog exExternals
          (S_statement (exHdr ''q'') (exStatement False [SA_column (ColName ''a'') None None] None 0))
        = Inr t1 \<and>
        operator w = RenameRelation t1 ''T'')"
proof -
  let ?q = "S_statement (exHdr ''q'') (exStatement False [SA_column (ColName ''a'') None None] None 0)"
  have "\<exists>t. rec exCatalog exExternals ?q = Inr t"
    by (simp add: example_defs translator_defs)
  then obtain t where t: "rec exCatalog exExternals ?q = Inr t" ..
  have "\<exists>w. rec exCatalog exExternals (S_relationFromSubstatement (exHdr ''sub'') ?q ''T'') = Inr w"
    by (simp add: example_defs translator_defs)
  then obtain w
    where w: "rec exCatalog exExternals (S_relationFromSubstatement (exHdr ''sub'') ?q ''T'') = Inr w" ..
  have p: "\<exists>t0. parseStatement exCatalog exExternals
             (exStatement False [SA_column (ColName ''a'') None None] None 0) = Inr t0 \<and>
           nodeWarnings (hdr t0) = []"
    by (simp add: example_defs translator_defs)
  have c: "codeInfo (exHdr ''q'') = Some (exPos ''q'')"
    and d: "sel_distinct (stmt_select (exStatement False [SA_column (ColName ''a'') None None] None 0)) = False"
    by (simp_all add: example_defs)
  from distinct_warning
    [where relations = exCatalog and X = exExternals and h = "exHdr ''q''" and h' = "exHdr ''sub''"
       and s = "exStatement False [SA_column (ColName ''a'') None None] None 0"
       and al = "''T''" and t = t and w = w]
    t w p
  show ?thesis
    unfolding c d by (auto simp del: rec.simps parseStatement.simps)
qed

subsection \<open>Empty aliases\<close>

lemma projectionLoop_empty_alias:
  "projectionLoop (xs @ SA_column n r (Some '''') # ys) ps cr =
   projectionLoop (xs @ SA_column n r None # ys) ps cr"
proof (induction xs arbitrary: ps cr)
  case Nil
  show ?case by (simp add: truthy_def)
next
  case (Cons x xs)
  then show ?case by (cases x) simp_all
qed

lemma renameLoop_empty_alias:
  "renameLoop (xs @ SA_column n r (Some '''') # ys) rs =
   renameLoop (xs @ SA_column n r None # ys) rs"
  by (induction xs arbitrary: rs) (simp_all add: truthy_def)

lemma renameLoop_skip_empty_alias:
  "renameLoop (xs @ SA_column n r (Some '''') # ys) rs = renameLoop (xs @ ys) rs"
  by (induction xs arbitrary: rs) (simp_all add: truthy_def)

lemma aggregateFunctionsOf_empty_alias:
  "aggregateFunctionsOf (xs @ SA_column n r (Some '''') # ys) =
   aggregateFunctionsOf (xs @ SA_column n r None # ys)"
proof (induction xs)
  case Nil
  show ?case by simp
next
  case (Cons x xs)
  then show ?case by (cases x) simp_all
qed

lemma isBareWildcard_iff:
  "isBareWildcard args \<longleftrightarrow> (\<exists>a. args = [SA_column (ColName ''*'') None a])"
  by (induction args rule: isBareWildcard.induct) auto

lemma isBareWildcard_empty_alias:
  "isBareWildcard (xs @ SA_column n r (Some '''') # ys) =
   isBareWildcard (xs @ SA_column n r None # ys)"
  by (auto simp: isBareWildcard_iff Cons_eq_append_conv append_eq_Cons_conv)

text \<open>C8. A \<^verbatim>\<open>'column'\<close> entry whose alias is the empty string is not a named column: it
  registers no renaming, and the statement translates exactly as if the entry had no
  alias at all, so it cannot cause a \<open>RenameColumns\<close> layer.\<close>

theorem empty_alias_not_aliased:
  "isNamedColumn (SA_column n r (Some '''')) = False \<and>
   renameLoop (xs @ SA_column n r (Some '''') # ys) [] = renameLoop (xs @ ys) [] \<and>
   parseStatement relations X
     (Stmt frm wh groupBy numAgg having (sel\<lparr>sel_arg := xs @ SA_column n r (Some '''') # ys\<rparr>)) =
   parseStatement relations X
     (Stmt frm wh groupBy numAgg having (sel\<lparr>sel_arg := xs @ SA_column n r None # ys\<rparr>))"
proof (intro conjI)
  show "isNamedColumn (SA_column n r (Some '''')) = False"
    by (simp add: truthy_def)
  show "renameLoop (xs @ SA_column n r (Some '''') # ys) [] = renameLoop (xs @ ys) []"
    by (rule renameLoop_skip_empty_alias)
  show "parseStatement relations X
     (Stmt frm wh groupBy numAgg having (sel\<lparr>sel_arg := xs @ SA_column n r (Some '''') # ys\<rparr>)) =
   parseStatement relations X
     (Stmt frm wh groupBy numAgg having (sel\<lparr>sel_arg := xs @ SA_column n r None # ys\<rparr>))"
    by (simp add: projectionStage_def renameStage_def groupByStage_def
        projectionLoop_empty_alias renameLoop_empty_alias aggregateFunctionsOf_empty_alias
        isBareWildcard_empty_alias cong: if_cong)
qed

subsection \<open>The stages of a statement\<close>

lemma parseStatement_stages:
  "parseStatement relations X s =
     bindE (rootAfterHaving relations X s) (\<lambda>root.
     bindE (projectionStage (stmt_select s) root) (\<lambda>(root, colsRenamed).
     Inr (renameStage colsRenamed (sel_arg (stmt_select s)) root)))"
  by (cases s)
    (simp add: rootAfterHaving_def rootAfterGroupBy_def rootAfterWhere_def bindE_assoc)

lemma aggregateFunctionsOf_conv:
  "aggregateFunctionsOf args = [f. SA_aggFunction f \<leftarrow> args]"
proof (induction args)
  case Nil
  show ?case by simp
next
  case (Cons x xs)
  then show ?case by (cases x) simp_all
qed

lemma aggregateFunctionsOf_empty_iff:
  "aggregateFunctionsOf args = [] \<longleftrightarrow> \<not> (\<exists>f. SA_aggFunction f \<in> set args)"
proof (induction args)
  case Nil
  show ?case by simp
next
  case (Cons x xs)
  then show ?case by (cases x) auto
qed

lemma self_in_nodes: "r \<in> set (nodes r)"
  by (cases r) simp

lemma nodes_setCodeInfoObject_Selection:
  "g \<in> set (nodes (setCodeInfoObject ci (new (Selection g c))))"
  by (simp add: new_def self_in_nodes)

lemma selectionStage_nodes:
  assumes "selectionStage X clause g = Inr r" and "x \<in> set (nodes g)"
  shows "x \<in> set (nodes r)"
proof (cases clause)
  case None
  with assms show ?thesis by (simp add: selectionStage_def)
next
  case (Some w)
  with assms obtain c ci where "r = RANode (newHdr\<lparr>nodeCodeInfo := ci\<rparr>) (Selection g c)"
    by (auto simp: selectionStage_def getSelection_def checked_def bindE_eq_Inr
        setCodeInfoFromNode_def new_def split: option.splits)
  with assms(2) show ?thesis by simp
qed

lemma projectionStage_nodes:
  assumes "projectionStage sel root = Inr (r, cr)" and "x \<in> set (nodes root)"
  shows "x \<in> set (nodes r)"
proof (cases "isBareWildcard (sel_arg sel)")
  case True
  with assms show ?thesis by (simp add: projectionStage_def)
next
  case False
  with assms obtain ps ci where "r = RANode (newHdr\<lparr>nodeCodeInfo := ci\<rparr>) (Projection root ps)"
    by (auto simp: projectionStage_def bindE_eq_Inr setCodeInfoFromNode_def new_def
        split: option.splits)
  with assms(2) show ?thesis by simp
qed

lemma renameStage_nodes:
  "x \<in> set (nodes r) \<Longrightarrow> x \<in> set (nodes (renameStage cr args r))"
  by (simp add: renameStage_def new_def)

text \<open>C3. When the statement has a GROUP BY clause or a positive
  \<^verbatim>\<open>numAggregationColumns\<close>, \<^verbatim>\<open>parseStatement\<close> builds exactly one node over the root
  left by the WHERE stage, and that node is part of the tree it returns: a \<open>GroupBy\<close> over
  the grouping columns and the \<^verbatim>\<open>aggFunction\<close> entries of the SELECT list (in their
  order) if and only if there is such an entry, and otherwise a \<open>Projection\<close> over exactly
  the grouping columns.\<close>

theorem groupBy_or_fallback:
  assumes "stmt_groupBy s \<noteq> None \<or> stmt_numAggregationColumns s > 0"
    and "rootAfterWhere relations X s = Inr root"
    and "parseStatement relations X s = Inr out"
  shows "\<exists>g. g \<in> set (nodes out) \<and>
           parseStatement relations X s =
             bindE (selectionStage X (stmt_having s) g) (\<lambda>root.
             bindE (projectionStage (stmt_select s) root) (\<lambda>(root, colsRenamed).
             Inr (renameStage colsRenamed (sel_arg (stmt_select s)) root))) \<and>
           ((\<exists>cols aggs. g = new (GroupBy root cols aggs)) \<longleftrightarrow>
              (\<exists>f. SA_aggFunction f \<in> set (sel_arg (stmt_select s)))) \<and>
           ((\<exists>f. SA_aggFunction f \<in> set (sel_arg (stmt_select s))) \<longrightarrow>
              g = new (GroupBy root
                    (case stmt_groupBy s of None \<Rightarrow> [] | Some cols \<Rightarrow> cols)
                    [f. SA_aggFunction f \<leftarrow> sel_arg (stmt_select s)])) \<and>
           (\<not> (\<exists>f. SA_aggFunction f \<in> set (sel_arg (stmt_select s))) \<longrightarrow>
              g = new (Projection root
                    (map (\<lambda>c. PC_column (Column (name c) (relAlias c)))
                      (case stmt_groupBy s of None \<Rightarrow> [] | Some cols \<Rightarrow> cols))))"
proof -
  let ?args = "sel_arg (stmt_select s)"
  let ?cols = "case stmt_groupBy s of None \<Rightarrow> [] | Some cols \<Rightarrow> cols"
  let ?g = "groupByStage (stmt_groupBy s) (stmt_numAggregationColumns s) ?args root"
  have h: "rootAfterHaving relations X s = selectionStage X (stmt_having s) ?g"
    by (simp add: rootAfterHaving_def rootAfterGroupBy_def assms(2))
  have eq: "parseStatement relations X s =
             bindE (selectionStage X (stmt_having s) ?g) (\<lambda>root.
             bindE (projectionStage (stmt_select s) root) (\<lambda>(root, colsRenamed).
             Inr (renameStage colsRenamed ?args root)))"
    by (simp add: parseStatement_stages h)
  from assms(3) obtain r1 r2 cr
    where s1: "selectionStage X (stmt_having s) ?g = Inr r1"
      and s2: "projectionStage (stmt_select s) r1 = Inr (r2, cr)"
      and s3: "out = renameStage cr ?args r2"
    unfolding eq by (auto simp: bindE_eq_Inr)
  have "?g \<in> set (nodes r1)"
    using s1 self_in_nodes by (rule selectionStage_nodes)
  then have "?g \<in> set (nodes r2)"
    using s2 by (rule projectionStage_nodes [rotated])
  then have mem: "?g \<in> set (nodes out)"
    unfolding s3 by (rule renameStage_nodes)
  show ?thesis
  proof (cases "\<exists>f. SA_aggFunction f \<in> set ?args")
    case True
    then have "aggregateFunctionsOf ?args \<noteq> []"
      by (simp add: aggregateFunctionsOf_empty_iff)
    with assms(1) have "?g = new (GroupBy root ?cols [f. SA_aggFunction f \<leftarrow> ?args])"
      by (simp add: groupByStage_def Let_def aggregateFunctionsOf_conv)
    with mem eq True show ?thesis by auto
  next
    case False
    then have "aggregateFunctionsOf ?args = []"
      by (simp add: aggregateFunctionsOf_empty_iff)
    with assms(1) have p: "?g = new (Projection root
        (map (\<lambda>c. PC_column (Column (name c) (relAlias c))) ?cols))"
      by (simp add: groupByStage_def Let_def)
    then have "\<not> (\<exists>cols aggs. ?g = new (GroupBy root cols aggs))"
      by (simp add: new_def)
    with mem eq False p show ?thesis by auto
  qed
qed

theorem groupBy_or_fallback_witness:
  "rootAfterWhere exCatalog exExternals (exStatement False [exCount] (Some [exColumnC]) 1)
     = Inr exRoot \<and>
   (\<exists>out. parseStatement exCatalog exExternals (exStatement False [exCount] (Some [exColumnC]) 1)
       = Inr out \<and>
     new (GroupBy exRoot [exColumnC] [exCountFunction]) \<in> set (nodes out)) \<and>
   rootAfterWhere exCatalog exExternals
     (exStatement False [SA_column (ColName ''c'') None None] (Some [exColumnC]) 0)
     = Inr exRoot \<and>
   (\<exists>out. parseStatement exCatalog exExternals
       (exStatement False [SA_column (ColName ''c'') None None] (Some [exColumnC]) 0)
       = Inr out \<and>
     new (Projection exRoot [PC_column (Column (ColName ''c'') None)]) \<in> set (nodes out))"
proof -
  let ?agg = "exStatement False [exCount] (Some [exColumnC]) 1"
  let ?plain = "exStatement False [SA_column (ColName ''c'') None None] (Some [exColumnC]) 0"
  have w1: "rootAfterWhere exCatalog exExternals ?agg = Inr exRoot"
    and w2: "rootAfterWhere exCatalog exExternals ?plain = Inr exRoot"
    by (simp_all add: rootAfterWhere_def example_defs translator_defs)
  have "\<exists>out. parseStatement exCatalog exExternals ?agg = Inr out"
    by (simp add: example_defs translator_defs)
  then obtain out1 where p1: "parseStatement exCatalog exExternals ?agg = Inr out1" ..
  have "\<exists>out. parseStatement exCatalog exExternals ?plain = Inr out"
    by (simp add: example_defs translator_defs)
  then obtain out2 where p2: "parseStatement exCatalog exExternals ?plain = Inr out2" ..
  have g1: "stmt_groupBy ?agg \<noteq> None \<or> stmt_numAggregationColumns ?agg > 0"
    and g2: "stmt_groupBy ?plain \<noteq> None \<or> stmt_numAggregationColumns ?plain > 0"
    by (simp_all add: exStatement_def)
  have s1: "sel_arg (stmt_select ?agg) = [SA_aggFunction exCountFunction]"
    and s2: "sel_arg (stmt_select ?plain) = [SA_column (ColName ''c'') None None]"
    and c1: "stmt_groupBy ?agg = Some [exColumnC]"
    and c2: "stmt_groupBy ?plain = Some [exColumnC]"
    by (simp_all add: exStatement_def exSelect_def exCount_def)
  have n: "name exColumnC = ColName ''c''" "relAlias exColumnC = None"
    by (simp_all add: exColumnC_def)
  from groupBy_or_fallback [OF g1 w1 p1]
  have a: "new (GroupBy exRoot [exColumnC] [exCountFunction]) \<in> set (nodes out1)"
    unfolding s1 c1 by auto
  from groupBy_or_fallback [OF g2 w2 p2]
  have b: "new (Projection exRoot [PC_column (Column (ColName ''c'') None)]) \<in> set (nodes out2)"
    unfolding s2 c2 by (auto simp: n)
  from a b w1 w2 p1 p2 show ?thesis
    by blast
qed

lemma not_own_projection: "root \<noteq> RANode h (Projection root ps)"
proof
  assume "root = RANode h (Projection root ps)"
  then have "size root = size (RANode h (Projection root ps))" by simp
  then show False by simp
qed

lemma not_own_renamed_projection:
  "root \<noteq> RANode h' (RenameColumns (RANode h (Projection root ps)) rs)"
proof
  assume "root = RANode h' (RenameColumns (RANode h (Projection root ps)) rs)"
  then have "size root = size (RANode h' (RenameColumns (RANode h (Projection root ps)) rs))"
    by simp
  then show False by simp
qed

lemma projectionLoop_colsRenamed:
  "projectionLoop args ps cr = Inr (ps', cr') \<Longrightarrow> cr' = (cr \<or> (\<exists>a \<in> set args. isNamedColumn a))"
proof (induction args ps cr rule: projectionLoop.induct)
  case (3 n r child cols projections colsRenamed)
  then show ?case by (auto simp: bindE_eq_Inr)
qed auto

lemma isNamedColumn_iff:
  "isNamedColumn x \<longleftrightarrow> (\<exists>n r a. x = SA_column n r (Some a) \<and> a \<noteq> '''')"
  by (cases x) (auto simp: truthy_def split: option.splits)

lemma renameLoop_conv:
  "renameLoop args rs =
     rs @ [\<lparr>newName = a, oldName = n, oldRelAlias = r\<rparr>. SA_column n r (Some a) \<leftarrow> args, a \<noteq> '''']"
proof (induction args arbitrary: rs)
  case Nil
  show ?case by simp
next
  case (Cons x xs)
  show ?case
  proof (cases x)
    case (SA_column n r al)
    then show ?thesis
      by (cases al) (simp_all add: Cons.IH truthy_def addRenaming_def)
  qed (simp_all add: Cons.IH)
qed

lemma projectionStage_Inr:
  assumes "projectionStage sel root = Inr (r, cr)"
  shows "if isBareWildcard (sel_arg sel) then r = root \<and> \<not> cr
         else (\<exists>ps. r = RANode (newHdr\<lparr>nodeCodeInfo := sel_codeInfo sel\<rparr>) (Projection root ps)) \<and>
              cr = (\<exists>a \<in> set (sel_arg sel). isNamedColumn a)"
proof (cases "isBareWildcard (sel_arg sel)")
  case True
  with assms show ?thesis by (simp add: projectionStage_def)
next
  case False
  with assms obtain ps where l: "projectionLoop (sel_arg sel) [] False = Inr (ps, cr)"
    and p: "setCodeInfoFromNode (new (Projection root ps)) (sel_codeInfo sel) = Inr r"
    by (auto simp: projectionStage_def bindE_eq_Inr)
  from p have "r = RANode (newHdr\<lparr>nodeCodeInfo := sel_codeInfo sel\<rparr>) (Projection root ps)"
    by (auto simp: setCodeInfoFromNode_def new_def split: option.splits)
  with projectionLoop_colsRenamed [OF l] False show ?thesis by auto
qed

lemma parseStatement_Inr:
  assumes "rootAfterHaving relations X s = Inr root"
    and "parseStatement relations X s = Inr out"
  shows "\<exists>r cr. projectionStage (stmt_select s) root = Inr (r, cr) \<and>
           out = renameStage cr (sel_arg (stmt_select s)) r"
  using assms by (auto simp: parseStatement_stages bindE_eq_Inr)

text \<open>C2. The projection stage puts a \<open>Projection\<close> directly over the root left by the
  preceding stages (below the \<open>RenameColumns\<close> layer, if one follows) if and only if the
  SELECT list is not the single \<^verbatim>\<open>'column'\<close> entry named \<open>*\<close> without relation
  qualifier; for that bare wildcard the statement's node is the root of the preceding
  stages itself.\<close>

theorem projection_unless_bare_wildcard:
  assumes "rootAfterHaving relations X s = Inr root"
    and "parseStatement relations X s = Inr out"
  shows "(((\<exists>h ps. out = RANode h (Projection root ps)) \<or>
           (\<exists>h h' ps rs. out = RANode h' (RenameColumns (RANode h (Projection root ps)) rs))) \<longleftrightarrow>
          \<not> (\<exists>a. sel_arg (stmt_select s) = [SA_column (ColName ''*'') None a])) \<and>
         ((\<exists>a. sel_arg (stmt_select s) = [SA_column (ColName ''*'') None a]) \<longrightarrow> out = root)"
proof -
  let ?args = "sel_arg (stmt_select s)"
  from parseStatement_Inr [OF assms] obtain r cr
    where st: "projectionStage (stmt_select s) root = Inr (r, cr)"
      and out: "out = renameStage cr ?args r"
    by blast
  show ?thesis
  proof (cases "isBareWildcard ?args")
    case True
    with projectionStage_Inr [OF st] out have "out = root"
      by (simp add: renameStage_def)
    with True show ?thesis
      by (simp add: isBareWildcard_iff not_own_projection not_own_renamed_projection)
  next
    case False
    with projectionStage_Inr [OF st] obtain ps
      where "r = RANode (newHdr\<lparr>nodeCodeInfo := sel_codeInfo (stmt_select s)\<rparr>) (Projection root ps)"
      by auto
    with out have "(\<exists>h ps. out = RANode h (Projection root ps)) \<or>
           (\<exists>h h' ps rs. out = RANode h' (RenameColumns (RANode h (Projection root ps)) rs))"
      by (cases cr) (auto simp: renameStage_def new_def)
    with False show ?thesis
      by (simp add: isBareWildcard_iff)
  qed
qed

theorem projection_unless_bare_wildcard_witness:
  "rootAfterHaving exCatalog exExternals
     (exStatement True [SA_column (ColName ''*'') None None] None 0) = Inr exRoot \<and>
   parseStatement exCatalog exExternals
     (exStatement True [SA_column (ColName ''*'') None None] None 0) = Inr exRoot \<and>
   rootAfterHaving exCatalog exExternals
     (exStatement True [SA_column (ColName ''a'') None None] None 0) = Inr exRoot \<and>
   (\<exists>out. parseStatement exCatalog exExternals
       (exStatement True [SA_column (ColName ''a'') None None] None 0) = Inr out \<and>
     ((\<exists>h ps. out = RANode h (Projection exRoot ps)) \<or>
      (\<exists>h h' ps rs. out = RANode h' (RenameColumns (RANode h (Projection exRoot ps)) rs))))"
proof -
  let ?star = "exStatement True [SA_column (ColName ''*'') None None] None 0"
  let ?a = "exStatement True [SA_column (ColName ''a'') None None] None 0"
  have r1: "rootAfterHaving exCatalog exExternals ?star = Inr exRoot"
    and r2: "rootAfterHaving exCatalog exExternals ?a = Inr exRoot"
    by (simp_all add: rootAfterHaving_def rootAfterGroupBy_def rootAfterWhere_def
        example_defs translator_defs)
  have p1: "parseStatement exCatalog exExternals ?star = Inr exRoot"
    by (simp add: example_defs translator_defs)
  have "\<exists>out. parseStatement exCatalog exExternals ?a = Inr out"
    by (simp add: example_defs translator_defs)
  then obtain out where p2: "parseStatement exCatalog exExternals ?a = Inr out" ..
  have a: "sel_arg (stmt_select ?a) = [SA_column (ColName ''a'') None None]"
    by (simp add: example_defs)
  from projection_unless_bare_wildcard [OF r1 p1] projection_unless_bare_wildcard [OF r2 p2]
    r1 r2 p1 p2
  show ?thesis
    unfolding a by (simp del: parseStatement.simps)
qed

text \<open>C4. A \<open>RenameColumns\<close> node is inserted if and only if the SELECT list is
  not the bare wildcard and at least one \<^verbatim>\<open>'column'\<close> entry carries a non-empty alias.
  It is then a new node directly above the \<open>Projection\<close> of the projection stage, with
  one renaming (alias, original name, original relation alias) per such entry, in the
  order of the SELECT list.\<close>

theorem rename_above_projection:
  assumes "rootAfterHaving relations X s = Inr root"
    and "parseStatement relations X s = Inr out"
  shows "((\<exists>h h' ps rs. out = RANode h' (RenameColumns (RANode h (Projection root ps)) rs)) \<longleftrightarrow>
          (\<not> (\<exists>a. sel_arg (stmt_select s) = [SA_column (ColName ''*'') None a]) \<and>
           (\<exists>n r a. SA_column n r (Some a) \<in> set (sel_arg (stmt_select s)) \<and> a \<noteq> ''''))) \<and>
         (\<not> (\<exists>a. sel_arg (stmt_select s) = [SA_column (ColName ''*'') None a]) \<and>
          (\<exists>n r a. SA_column n r (Some a) \<in> set (sel_arg (stmt_select s)) \<and> a \<noteq> '''') \<longrightarrow>
            (\<exists>ps. out =
               new (RenameColumns
                 (RANode (newHdr\<lparr>nodeCodeInfo := sel_codeInfo (stmt_select s)\<rparr>) (Projection root ps))
                 [\<lparr>newName = a, oldName = n, oldRelAlias = r\<rparr>.
                    SA_column n r (Some a) \<leftarrow> sel_arg (stmt_select s), a \<noteq> ''''])))"
proof -
  let ?args = "sel_arg (stmt_select s)"
  let ?aliased = "\<exists>n r a. SA_column n r (Some a) \<in> set ?args \<and> a \<noteq> ''''"
  have al: "(\<exists>a \<in> set ?args. isNamedColumn a) \<longleftrightarrow> ?aliased"
    by (auto simp: isNamedColumn_iff)
  from parseStatement_Inr [OF assms] obtain r cr
    where st: "projectionStage (stmt_select s) root = Inr (r, cr)"
      and out: "out = renameStage cr ?args r"
    by blast
  show ?thesis
  proof (cases "isBareWildcard ?args")
    case True
    with projectionStage_Inr [OF st] out have "out = root"
      by (simp add: renameStage_def)
    with True show ?thesis
      by (simp add: isBareWildcard_iff not_own_renamed_projection)
  next
    case False
    with projectionStage_Inr [OF st] obtain ps
      where r: "r = RANode (newHdr\<lparr>nodeCodeInfo := sel_codeInfo (stmt_select s)\<rparr>) (Projection root ps)"
        and cr: "cr = (\<exists>a \<in> set ?args. isNamedColumn a)"
      by auto
    show ?thesis
    proof (cases cr)
      case True
      with out r have "out = new (RenameColumns
                 (RANode (newHdr\<lparr>nodeCodeInfo := sel_codeInfo (stmt_select s)\<rparr>) (Projection root ps))
                 [\<lparr>newName = a, oldName = n, oldRelAlias = r\<rparr>.
                    SA_column n r (Some a) \<leftarrow> ?args, a \<noteq> ''''])"
        by (simp add: renameStage_def renameLoop_conv)
      moreover from True cr al have ?aliased by simp
      ultimately show ?thesis
        using False by (auto simp: isBareWildcard_iff new_def)
    next
      case F: False
      with out r have "out = RANode (newHdr\<lparr>nodeCodeInfo := sel_codeInfo (stmt_select s)\<rparr>) (Projection root ps)"
        by (simp add: renameStage_def)
      moreover from F cr al have "\<not> ?aliased" by simp
      ultimately show ?thesis
        by auto
    qed
  qed
qed

theorem rename_above_projection_witness:
  "rootAfterHaving exCatalog exExternals
     (exStatement True [SA_column (ColName ''a'') None (Some ''x''), SA_column (ColName ''b'') None None]
        None 0) = Inr exRoot \<and>
   (\<exists>ps. parseStatement exCatalog exExternals
     (exStatement True [SA_column (ColName ''a'') None (Some ''x''), SA_column (ColName ''b'') None None]
        None 0) =
     Inr (new (RenameColumns
       (RANode (newHdr\<lparr>nodeCodeInfo := Some (exPos ''select'')\<rparr>) (Projection exRoot ps))
       [\<lparr>newName = ''x'', oldName = ColName ''a'', oldRelAlias = None\<rparr>])))"
proof -
  let ?q = "exStatement True
     [SA_column (ColName ''a'') None (Some ''x''), SA_column (ColName ''b'') None None] None 0"
  have r: "rootAfterHaving exCatalog exExternals ?q = Inr exRoot"
    by (simp add: rootAfterHaving_def rootAfterGroupBy_def rootAfterWhere_def
        example_defs translator_defs)
  have "\<exists>out. parseStatement exCatalog exExternals ?q = Inr out"
    by (simp add: example_defs translator_defs)
  then obtain out where p: "parseStatement exCatalog exExternals ?q = Inr out" ..
  have a: "sel_arg (stmt_select ?q) =
      [SA_column (ColName ''a'') None (Some ''x''), SA_column (ColName ''b'') None None]"
    and c: "sel_codeInfo (stmt_select ?q) = Some (exPos ''select'')"
    by (simp_all add: exStatement_def exSelect_def)
  from rename_above_projection [OF r p] r p
  show ?thesis
    unfolding a c by (auto simp del: parseStatement.simps)
qed

theorem aliased_wildcard_counterexample:
  "isNamedColumn (SA_column (ColName ''*'') None (Some ''x'')) \<and>
   parseStatement exCatalog exExternals
     (exStatement True [SA_column (ColName ''*'') None (Some ''x'')] None 0) = Inr exRoot \<and>
   operator exRoot = Relation exBody"
  by (simp add: example_defs translator_defs)

subsection \<open>Source positions\<close>

lemma copyMetaDataLoop_codeInfo:
  "copyMetaDataLoop obj rest node = Inr t \<Longrightarrow> nodeCodeInfo (hdr t) = nodeCodeInfo (hdr node)"
  by (induction obj rest node rule: copyMetaDataLoop.induct)
    (auto split: if_splits option.splits)

lemma setAdditionalData_position:
  assumes "setAdditionalData h node = Inr t"
  shows "nodeCodeInfo (hdr t) = codeInfo h"
proof (cases "metaData h")
  case None
  with assms show ?thesis
    by (auto simp: setAdditionalData_def Let_def)
next
  case (Some md)
  with assms obtain m where "copyMetaDataLoop md md (setCodeInfoObject (codeInfo h) node) = Inr m"
    and "t = (if wrappedInParentheses h then setWrappedInParentheses True m else m)"
    by (auto simp: setAdditionalData_def Let_def copyMetaData_def bindE_eq_Inr)
  with copyMetaDataLoop_codeInfo [of md md "setCodeInfoObject (codeInfo h) node" m]
  show ?thesis by simp
qed

lemma rec_root_positioned:
  "rec relations X n = Inr t \<Longrightarrow> nodeCodeInfo (hdr t) \<noteq> None"
  by (cases n)
    (auto simp: bindE_eq_Inr Let_def dest!: finish_positioned split: js_slot.splits)

lemma recRANode_Inr:
  "recRANode relations X n = Inr t \<Longrightarrow> \<exists>node. setAdditionalData (raHdr n) node = Inr t"
  by (cases n) (auto simp: bindE_eq_Inr split: js_slot.splits)

lemma recRANode_root_position:
  "recRANode relations X n = Inr t \<Longrightarrow> nodeCodeInfo (hdr t) = codeInfo (raHdr n)"
  using recRANode_Inr setAdditionalData_position by blast

text \<open>C6. The node a translator returns carries a position (the lemmas above), but the
  \<open>GroupBy\<close> node that the group-by stage of \<^verbatim>\<open>parseStatement\<close> builds is never given one:
  for \<^verbatim>\<open>SELECT COUNT(*) AS n FROM R GROUP BY c\<close> it stays below the \<open>Projection\<close> of the
  projection stage with the empty position of a new node.\<close>

theorem groupBy_node_without_position:
  "rec exCatalog exExternals
     (S_statement (exHdr ''q'') (exStatement True [exCount] (Some [exColumnC]) 1)) =
   Inr (RANode (newHdr\<lparr>nodeCodeInfo := Some (exPos ''q'')\<rparr>)
     (Projection
       (RANode newHdr (GroupBy exRoot [exColumnC] [exCountFunction]))
       [PC_column (Column (ColName ''n'') None)])) \<and>
   nodeCodeInfo newHdr = None \<and>
   \<not> positioned (RANode (newHdr\<lparr>nodeCodeInfo := Some (exPos ''q'')\<rparr>)
     (Projection
       (RANode newHdr (GroupBy exRoot [exColumnC] [exCountFunction]))
       [PC_column (Column (ColName ''n'') None)]))"
  by (simp add: example_defs translator_defs)

subsection \<open>Metadata\<close>

lemma copyMetaDataLoop_other_key:
  "copyMetaDataLoop obj rest node = Inr t \<Longrightarrow> k \<notin> fst ` set rest \<Longrightarrow>
   map_of (nodeMetaData (hdr t)) k = map_of (nodeMetaData (hdr node)) k"
  by (induction obj rest node rule: copyMetaDataLoop.induct)
    (auto simp: update_conv' split: if_splits option.splits)

lemma copyMetaDataLoop_entry:
  assumes "copyMetaDataLoop obj rest node = Inr t"
    and "distinct (map fst obj)" and "set rest \<subseteq> set obj" and "distinct (map fst rest)"
    and "(k, v) \<in> set rest"
  shows "map_of (nodeMetaData (hdr t)) k = Some v"
  using assms
proof (induction rest arbitrary: node)
  case Nil
  then show ?case by simp
next
  case (Cons e rest)
  obtain k' v' where e: "e = (k', v')" by (cases e)
  with Cons.prems have own: "map_of obj k' = Some v'"
    by simp
  with Cons.prems(1) e
  have loop: "copyMetaDataLoop obj rest (setMetaData k' v' node) = Inr t"
    by (simp split: if_splits)
  show ?case
  proof (cases "(k, v) = e")
    case True
    with Cons.prems e have "k \<notin> fst ` set rest" by auto
    with copyMetaDataLoop_other_key [OF loop] True e show ?thesis
      by (simp add: update_conv')
  next
    case False
    with Cons.prems have "(k, v) \<in> set rest" "distinct (map fst rest)" "set rest \<subseteq> set obj"
      by auto
    with Cons.IH [OF loop Cons.prems(2)] show ?thesis by simp
  qed
qed

lemma setAdditionalData_entry:
  assumes "setAdditionalData h node = Inr t"
    and "metaData h = Some md" and "distinct (map fst md)" and "(k, v) \<in> set md"
  shows "map_of (nodeMetaData (hdr t)) k = Some v"
proof -
  from assms(1,2) obtain m
    where m: "copyMetaDataLoop md md (setCodeInfoObject (codeInfo h) node) = Inr m"
      and t: "t = (if wrappedInParentheses h then setWrappedInParentheses True m else m)"
    by (auto simp: setAdditionalData_def Let_def copyMetaData_def bindE_eq_Inr)
  from copyMetaDataLoop_entry [OF m assms(3) subset_refl assms(3,4)] t
  show ?thesis by simp
qed

text \<open>A metadata object with an own entry named \<^verbatim>\<open>hasOwnProperty\<close> stops the translation of
  its node with a \<^verbatim>\<open>TypeError\<close>.\<close>

lemma own_hasOwnProperty_type_error:
  assumes "metaData h = Some md" and "map_of md ''hasOwnProperty'' \<noteq> None"
  shows "setAdditionalData h node = Inl (InternalError ''TypeError'')"
proof -
  from assms(2) obtain e rest where "md = e # rest"
    by (cases md) auto
  with assms show ?thesis
    by (cases e) (simp add: setAdditionalData_def Let_def copyMetaData_def)
qed

text \<open>C7. In the relational-algebra translator every entry of the metadata object
  that a syntax-tree node declares is set on the tree node produced for it.\<close>

theorem ra_metadata_copied:
  assumes "recRANode relations X n = Inr t"
    and "metaData (raHdr n) = Some md"
    and "distinct (map fst md)"
    and "(k, v) \<in> set md"
  shows "map_of (nodeMetaData (hdr t)) k = Some v"
proof -
  from recRANode_Inr [OF assms(1)] obtain node
    where "setAdditionalData (raHdr n) node = Inr t" ..
  then show ?thesis
    using assms(2,3,4) by (rule setAdditionalData_entry)
qed

theorem ra_metadata_copied_witness:
  "\<exists>t. recRANode exCatalog exExternals
          (R_relation ((exHdr ''R'')\<lparr>metaData := Some [(''k'', JStr ''v'')]\<rparr>) ''R'') = Inr t \<and>
        map_of (nodeMetaData (hdr t)) ''k'' = Some (JStr ''v'')"
proof -
  let ?n = "R_relation ((exHdr ''R'')\<lparr>metaData := Some [(''k'', JStr ''v'')]\<rparr>) ''R''"
  have "\<exists>t. recRANode exCatalog exExternals ?n = Inr t"
    by (simp add: example_defs translator_defs)
  then obtain t where t: "recRANode exCatalog exExternals ?n = Inr t" ..
  have m: "metaData (raHdr ?n) = Some [(''k'', JStr ''v'')]"
    by simp
  have d: "distinct (map fst [(''k'', JStr ''v'')])"
    and e: "(''k'', JStr ''v'') \<in> set [(''k'', JStr ''v'')]"
    by simp_all
  from ra_metadata_copied [OF t m d e] t show ?thesis
    by blast
qed

theorem sql_metadata_counterexample:
  "rec exCatalog exExternals
     (S_relation ((exHdr ''R'')\<lparr>metaData := Some [(''k'', JStr ''v'')]\<rparr>) ''R'' None) = Inr exRoot \<and>
   nodeMetaData (hdr exRoot) = []"
  by (simp add: example_defs translator_defs)

end
